theory Spec2Isabelle
  imports Complex_Main "HOL-Library.Word"
begin

section \<open>JavaScript values used by the detector\<close>

text \<open>
  A JavaScript string is a sequence of UTF-16 code units; \<open>length\<close>, \<open>slice\<close>,
  \<open>startsWith\<close> and \<open>trim\<close> all work on code units.  String literals of the
  source are ASCII and are written through \<open>js\<close>.
\<close>

type_synonym jschar = "16 word"
type_synonym jsstring = "jschar list"
type_synonym byte = "8 word"

definition js :: "string \<Rightarrow> jsstring" where
  "js s = map (\<lambda>c. of_nat (of_char c)) s"

text \<open>
  A JavaScript number is an IEEE double.  The handler only compares numbers, takes
  \<open>Math.min\<close>, \<open>Math.max\<close> and \<open>Math.round\<close> of them and asks
  \<open>Number.isFinite\<close>; on doubles each of these is exact, so a finite number is
  modelled by the real it denotes (the two zeros are identified) and the three
  non-finite values are kept apart.
\<close>

datatype jsnum = Finite real | PosInf | NegInf | NaN

fun Number_isFinite :: "jsnum \<Rightarrow> bool" where
  "Number_isFinite (Finite _) = True"
| "Number_isFinite _ = False"

text \<open>\<open>a < b\<close> and \<open>a <= b\<close> of JavaScript: any comparison with NaN is false.\<close>

fun js_lt :: "jsnum \<Rightarrow> jsnum \<Rightarrow> bool" where
  "js_lt (Finite a) (Finite b) = (a < b)"
| "js_lt NaN _ = False"
| "js_lt _ NaN = False"
| "js_lt NegInf NegInf = False"
| "js_lt NegInf _ = True"
| "js_lt PosInf _ = False"
| "js_lt (Finite a) PosInf = True"
| "js_lt (Finite a) NegInf = False"

fun js_le :: "jsnum \<Rightarrow> jsnum \<Rightarrow> bool" where
  "js_le (Finite a) (Finite b) = (a \<le> b)"
| "js_le NaN _ = False"
| "js_le _ NaN = False"
| "js_le NegInf _ = True"
| "js_le _ PosInf = True"
| "js_le PosInf _ = False"
| "js_le (Finite a) NegInf = False"

text \<open>\<open>Math.min\<close> and \<open>Math.max\<close>: NaN if an argument is NaN.\<close>

fun Math_min :: "jsnum \<Rightarrow> jsnum \<Rightarrow> jsnum" where
  "Math_min NaN _ = NaN"
| "Math_min _ NaN = NaN"
| "Math_min a b = (if js_le a b then a else b)"

fun Math_max :: "jsnum \<Rightarrow> jsnum \<Rightarrow> jsnum" where
  "Math_max NaN _ = NaN"
| "Math_max _ NaN = NaN"
| "Math_max a b = (if js_le a b then b else a)"

text \<open>\<open>Math.round\<close>: the nearest integer, a tie going towards plus infinity.\<close>

fun Math_round :: "jsnum \<Rightarrow> jsnum" where
  "Math_round (Finite x) = Finite (of_int \<lfloor>x + 1 / 2\<rfloor>)"
| "Math_round n = n"

section \<open>String operations\<close>

text \<open>\<open>s.startsWith(p)\<close>\<close>

definition startsWith :: "jsstring \<Rightarrow> jsstring \<Rightarrow> bool" where
  "startsWith s p = (take (length p) s = p)"

text \<open>
  The code units that \<open>trim\<close> removes and that \<open>\\s\<close> matches in a regular
  expression: the white space and line terminators of ECMAScript (tab, LF, VT, FF, CR,
  space, NBSP, U+1680, U+2000 to U+200A, U+2028, U+2029, U+202F, U+205F, U+3000,
  U+FEFF).
\<close>

definition is_space :: "jschar \<Rightarrow> bool" where
  "is_space c =
     (c \<in> {0x09, 0x0A, 0x0B, 0x0C, 0x0D, 0x20, 0xA0, 0x1680, 0x2028, 0x2029,
            0x202F, 0x205F, 0x3000, 0xFEFF}
      \<or> (0x2000 \<le> c \<and> c \<le> 0x200A))"

definition trim :: "jsstring \<Rightarrow> jsstring" where
  "trim s = rev (dropWhile is_space (rev (dropWhile is_space s)))"

text \<open>
  \<open>s.slice(start, end)\<close>: a negative index counts from the end, and both are
  clamped to the string.
\<close>

definition js_slice :: "jsstring \<Rightarrow> int \<Rightarrow> int \<Rightarrow> jsstring" where
  "js_slice s start end =
     (let n = int (length s);
          from = (if start < 0 then max (n + start) 0 else min start n);
          to = (if end < 0 then max (n + end) 0 else min end n)
      in take (nat (to - from)) (drop (nat from) s))"

text \<open>
  \<open>s.split(c)\<close> for a separator of one code unit: the pieces between the
  occurrences of \<open>c\<close>, empty pieces included; one piece when \<open>c\<close> does not
  occur.  (The result is never empty, so the last case below does not arise.)
\<close>

fun split :: "jsstring \<Rightarrow> jschar \<Rightarrow> jsstring list" where
  "split [] c = [[]]"
| "split (x # xs) c =
     (if x = c then [] # split xs c
      else (case split xs c of piece # pieces \<Rightarrow> (x # piece) # pieces | [] \<Rightarrow> [[x]]))"

text \<open>\<open>s.indexOf(c)\<close> and \<open>s.lastIndexOf(c)\<close> for one code unit; \<open>-1\<close> when absent.\<close>

fun indexOf :: "jsstring \<Rightarrow> jschar \<Rightarrow> int" where
  "indexOf [] c = -1"
| "indexOf (x # xs) c =
     (if x = c then 0 else (let i = indexOf xs c in if i = -1 then -1 else i + 1))"

definition lastIndexOf :: "jsstring \<Rightarrow> jschar \<Rightarrow> int" where
  "lastIndexOf s c =
     (let i = indexOf (rev s) c in if i = -1 then -1 else int (length s) - 1 - i)"

section \<open>The label of a score\<close>

text \<open>
  The three-way mapping appears four times in the handler with the same text:
  \<^verbatim>\<open>if (score < 45) label = "Human-Captured"
  else if (score <= 55) label = "Uncertain"
  else label = "AI-Generated"\<close>
\<close>

definition label_of :: "jsnum \<Rightarrow> jsstring" where
  "label_of score =
     (if js_lt score (Finite 45) then js ''Human-Captured''
      else if js_le score (Finite 55) then js ''Uncertain''
      else js ''AI-Generated'')"

text \<open>
  The object a provider returns, of the schema's type \<^verbatim>\<open>{ score: number; reason: string }\<close>,
  and the JSON body of a successful answer,
  \<^verbatim>\<open>{ score, label, reason, provider }\<close>.
\<close>

record detection =
  score :: jsnum
  reason :: jsstring

record response = detection +
  label :: jsstring
  provider :: jsstring

section \<open>The fallback heuristic\<close>

definition reasons :: "jsstring list" where
  "reasons =
     [js ''Texture regularity suggests model synthesis.'',
      js ''Natural sensor noise patterns detected.'',
      js ''EXIF fields appear atypical for camera devices.'',
      js ''Frequency components hint at generative priors.'',
      js ''Compression artifacts align with human-captured photos.'',
      js ''Watermark-like traces near edges.'',
      js ''Noise signature resembles demosaicing from real sensors.'',
      js ''Classifier confidence near boundary threshold.'']"

text \<open>\<^verbatim>\<open>const step = Math.max(1, Math.floor(view.length / 1024))\<close>\<close>

definition step_of :: "byte list \<Rightarrow> nat" where
  "step_of view = max 1 (length view div 1024)"

text \<open>
  \<^verbatim>\<open>for (let i = 0; i < view.length; i += step) { hash = (hash * 31 + view[i]) >>> 0 }\<close>
  The loop variable and the running hash are the arguments.  \<open>hash * 31 + view[i]\<close>
  stays below \<open>2 ^ 37\<close>, so the double arithmetic is exact and \<open>>>> 0\<close> is the
  remainder modulo \<open>2 ^ 32\<close>.
\<close>

function hash_loop :: "byte list \<Rightarrow> nat \<Rightarrow> nat \<Rightarrow> nat" where
  "hash_loop view i hash =
     (if i < length view
      then hash_loop view (i + step_of view) ((hash * 31 + unat (view ! i)) mod 2 ^ 32)
      else hash)"
  by pat_completeness auto
termination
  by (relation "measure (\<lambda>(view, i, hash). length view - i)") (auto simp: step_of_def)

declare hash_loop.simps [simp del]

definition fallback :: "byte list \<Rightarrow> response" where
  "fallback view =
     (let hash = hash_loop view 0 0;
          score = Finite (real (hash mod 101))
      in \<lparr>score = score, reason = reasons ! (hash mod length reasons),
          label = label_of score, provider = js ''fallback''\<rparr>)"

section \<open>extractJsonObject\<close>

text \<open>
  The two regular expressions of the helper are
  \<^verbatim>\<open>/```json([\s\S]*?)```/i\<close> and \<^verbatim>\<open>/```([\s\S]*?)```/i\<close>.
  Both open with three backticks and close at the nearest three backticks after the
  opening; the group is what stands between.  \<open>match\<close> gives the leftmost match.
\<close>

definition fence :: jsstring where
  "fence = js [CHR 0x60, CHR 0x60, CHR 0x60]"

text \<open>\<open>json\<close> under the flag \<open>i\<close>: each letter in either case.\<close>

definition starts_json :: "jsstring \<Rightarrow> bool" where
  "starts_json s =
     (case s of
        a # b # c # d # _ \<Rightarrow>
          (a = 0x6A \<or> a = 0x4A) \<and> (b = 0x73 \<or> b = 0x53) \<and>
          (c = 0x6F \<or> c = 0x4F) \<and> (d = 0x6E \<or> d = 0x4E)
      | _ \<Rightarrow> False)"

text \<open>
  The lazy group \<^verbatim>\<open>([\s\S]*?)\<close> followed by the closing fence: the shortest text
  before three backticks, \<open>None\<close> when no fence follows.
\<close>

fun until_fence :: "jsstring \<Rightarrow> jsstring option" where
  "until_fence [] = None"
| "until_fence (x # xs) =
     (if startsWith (x # xs) fence then Some []
      else map_option ((#) x) (until_fence xs))"

text \<open>\<open>text.match(/```json([\s\S]*?)```/i)\<close>: group 1 of the leftmost match.\<close>

fun match_fenceJson :: "jsstring \<Rightarrow> jsstring option" where
  "match_fenceJson [] = None"
| "match_fenceJson (x # xs) =
     (case (if startsWith (x # xs) fence \<and> starts_json (drop 3 (x # xs))
            then until_fence (drop 7 (x # xs)) else None) of
        Some g \<Rightarrow> Some g
      | None \<Rightarrow> match_fenceJson xs)"

text \<open>\<open>text.match(/```([\s\S]*?)```/i)\<close>: group 1 of the leftmost match.\<close>

fun match_fenceAny :: "jsstring \<Rightarrow> jsstring option" where
  "match_fenceAny [] = None"
| "match_fenceAny (x # xs) =
     (case (if startsWith (x # xs) fence then until_fence (drop 3 (x # xs)) else None) of
        Some g \<Rightarrow> Some g
      | None \<Rightarrow> match_fenceAny xs)"

text \<open>
  \<^verbatim>\<open>candidate.replace(/,(\s*[}\]])/g, "$1")\<close>: every comma that is followed, after
  optional white space, by a closing brace or bracket is dropped; the scan goes on
  behind the bracket.
\<close>

function remove_trailing_commas :: "jsstring \<Rightarrow> jsstring" where
  "remove_trailing_commas [] = []"
| "remove_trailing_commas (x # xs) =
     (case dropWhile is_space xs of
        y # ys \<Rightarrow>
          if x = 0x2C \<and> (y = 0x7D \<or> y = 0x5D)
          then takeWhile is_space xs @ y # remove_trailing_commas ys
          else x # remove_trailing_commas xs
      | [] \<Rightarrow> x # remove_trailing_commas xs)"
  by pat_completeness auto
termination
proof (relation "measure length")
  fix x :: jschar and xs y ys
  assume "dropWhile is_space xs = y # ys"
  then have "length (y # ys) \<le> length xs"
    by (metis length_dropWhile_le)
  then show "(ys, x # xs) \<in> measure length" by simp
qed auto

text \<open>
  \<open>JSON.parse\<close> belongs to the JavaScript runtime and is a parameter: \<open>None\<close>
  when it throws a SyntaxError.  The result \<open>None\<close> of \<open>extractJsonObject\<close>
  is the \<open>null\<close> of its own \<open>return null\<close> statements and of its outer
  \<open>catch\<close>.

  The first stage returns \<open>JSON.parse(candidate)\<close> directly, inside the outer
  \<open>try\<close>: when the parse throws, the outer \<open>catch\<close> returns \<open>null\<close>.  The
  second stage has a \<open>try\<close> of its own and falls through.
\<close>

definition extractJsonObject :: "(jsstring \<Rightarrow> 'v option) \<Rightarrow> jsstring \<Rightarrow> 'v option" where
  "extractJsonObject JSON_parse text =
     (if text = [] then None
      else
        (case (case match_fenceJson text of
                 Some g \<Rightarrow> if g \<noteq> [] then Some (JSON_parse (trim g)) else None
               | None \<Rightarrow> None) of
           Some returned \<Rightarrow> returned
         | None \<Rightarrow>
             (case (case match_fenceAny text of
                      Some g \<Rightarrow> if g \<noteq> [] then JSON_parse (trim g) else None
                    | None \<Rightarrow> None) of
                Some v \<Rightarrow> Some v
              | None \<Rightarrow>
                  (let firstBrace = indexOf text 0x7B;
                       lastBrace = lastIndexOf text 0x7D
                   in if firstBrace \<noteq> -1 \<and> lastBrace > firstBrace
                      then JSON_parse
                             (remove_trailing_commas (trim (js_slice text firstBrace (lastBrace + 1))))
                      else None))))"

section \<open>The schema of a provider's answer\<close>

text \<open>
  A value that \<open>JSON.parse\<close> returns.  An object lists its properties; a property
  is looked up with \<open>map_of\<close>.
\<close>

datatype json =
    JNull
  | JBool bool
  | JNumber jsnum
  | JString jsstring
  | JArray "json list"
  | JObject "(jsstring \<times> json) list"

text \<open>
  \<^verbatim>\<open>score: z.preprocess((v) => {
    if (typeof v === "string") { const n = Number(v); if (Number.isFinite(n)) return n }
    return v
  }, z.number().min(0).max(100))\<close>
  \<open>Number\<close> on a string is the runtime's conversion, a parameter.  \<open>z.number()\<close>
  accepts a number that is not NaN, and the bounds reject the infinities.  The
  argument is \<open>None\<close> when the property is absent (\<open>undefined\<close>).
\<close>

definition schema_score :: "(jsstring \<Rightarrow> jsnum) \<Rightarrow> json option \<Rightarrow> jsnum option" where
  "schema_score Number v =
     (let v' = (case v of
                  Some (JString s) \<Rightarrow>
                    (let n = Number s in if Number_isFinite n then Some (JNumber n) else v)
                | _ \<Rightarrow> v)
      in case v' of
           Some (JNumber n) \<Rightarrow>
             if n \<noteq> NaN \<and> js_le (Finite 0) n \<and> js_le n (Finite 100) then Some n else None
         | _ \<Rightarrow> None)"

text \<open>\<^verbatim>\<open>reason: z.string().min(3).max(200)\<close>\<close>

definition schema_reason :: "json option \<Rightarrow> jsstring option" where
  "schema_reason v =
     (case v of
        Some (JString s) \<Rightarrow> if 3 \<le> length s \<and> length s \<le> 200 then Some s else None
      | _ \<Rightarrow> None)"

text \<open>
  \<open>schema.safeParse(parsed)\<close>, where \<open>parsed\<close> is what \<open>extractJsonObject\<close>
  returned: \<open>None\<close> when the parse does not succeed, the data otherwise.
\<close>

definition schema_safeParse :: "(jsstring \<Rightarrow> jsnum) \<Rightarrow> json option \<Rightarrow> detection option" where
  "schema_safeParse Number parsed =
     (case parsed of
        Some (JObject props) \<Rightarrow>
          (case schema_score Number (map_of props (js ''score'')) of
             Some s \<Rightarrow>
               (case schema_reason (map_of props (js ''reason'')) of
                  Some r \<Rightarrow> Some \<lparr>score = s, reason = r\<rparr>
                | None \<Rightarrow> None)
           | None \<Rightarrow> None)
      | _ \<Rightarrow> None)"

section \<open>Normalising a provider's answer\<close>

text \<open>
  After \<open>generateObject\<close> (OpenRouter and xAI alike):
  \<^verbatim>\<open>let rawScore = Number((result.object as any)?.score)
  if (!Number.isFinite(rawScore)) rawScore = 50
  const clamped = Math.max(0, Math.min(100, rawScore))
  const score = Math.round(clamped)\<close>
  The object has the schema's type, so its score is a number and \<open>Number\<close> gives it
  back; the argument is that number.
\<close>

definition normalize_score :: "jsnum \<Rightarrow> jsnum" where
  "normalize_score raw =
     (let rawScore = (if \<not> Number_isFinite raw then Finite 50 else raw);
          clamped = Math_max (Finite 0) (Math_min (Finite 100) rawScore)
      in Math_round clamped)"

text \<open>
  After the text parse there is no test for a finite number:
  \<^verbatim>\<open>const rawScore = Number(safe.data.score)
  const clamped = Math.max(0, Math.min(100, rawScore))
  const score = Math.round(clamped)\<close>
\<close>

definition normalize_score_text :: "jsnum \<Rightarrow> jsnum" where
  "normalize_score_text rawScore =
     (let clamped = Math_max (Finite 0) (Math_min (Finite 100) rawScore)
      in Math_round clamped)"

text \<open>
  \<^verbatim>\<open>String((result.object as any)?.reason || "No reason provided").slice(0, 200)\<close>:
  the empty string is falsy.
\<close>

definition respond_object :: "detection \<Rightarrow> jsstring \<Rightarrow> response" where
  "respond_object obj provider_name =
     (let rounded = normalize_score (score obj);
          why = js_slice (if reason obj \<noteq> [] then reason obj else js ''No reason provided'') 0 200
      in \<lparr>score = rounded, reason = why, label = label_of rounded, provider = provider_name\<rparr>)"

text \<open>\<^verbatim>\<open>String(safe.data.reason).slice(0, 200)\<close>\<close>

definition respond_text :: "detection \<Rightarrow> jsstring \<Rightarrow> response" where
  "respond_text data provider_name =
     (let rounded = normalize_score_text (score data);
          why = js_slice (reason data) 0 200
      in \<lparr>score = rounded, reason = why, label = label_of rounded, provider = provider_name\<rparr>)"

section \<open>The environment and the providers\<close>

record env =
  OPENROUTER_API_KEY :: "jsstring option"
  OPENROUTER_MODEL :: "jsstring option"
  XAI_API_KEY :: "jsstring option"

text \<open>\<open>!!v\<close> for an environment variable: set and not the empty string.\<close>

definition truthy :: "jsstring option \<Rightarrow> bool" where
  "truthy v = (case v of None \<Rightarrow> False | Some s \<Rightarrow> s \<noteq> [])"

text \<open>
  What lies outside the handler: the runtime's \<open>JSON.parse\<close> and \<open>Number\<close>, and
  the calls to the providers.  A provider call gets the model name, the image bytes
  and the MIME type, and \<open>None\<close> stands for a thrown error.  The calls to OpenRouter
  are told apart by the position of the candidate, so that a model named twice may
  answer differently.
\<close>

record world =
  JSON_parse :: "jsstring \<Rightarrow> json option"
  Number_of_string :: "jsstring \<Rightarrow> jsnum"
  openrouter_generateObject :: "nat \<Rightarrow> jsstring \<Rightarrow> byte list \<Rightarrow> jsstring \<Rightarrow> detection option"
  openrouter_generateText :: "nat \<Rightarrow> jsstring \<Rightarrow> byte list \<Rightarrow> jsstring \<Rightarrow> jsstring option"
  xai_generateObject :: "byte list \<Rightarrow> jsstring \<Rightarrow> detection option"

text \<open>The provider calls a request makes, in the order they are made.\<close>

datatype call =
    OpenRouter_generateObject jsstring
  | OpenRouter_generateText jsstring
  | Xai_generateObject

text \<open>
  \<^verbatim>\<open>process.env.OPENROUTER_MODEL
    ? process.env.OPENROUTER_MODEL.split(",").map((s) => s.trim()).filter(Boolean)
    : ["openai/gpt-4o", "google/gemini-1.5-pro", "anthropic/claude-3.5-sonnet"]\<close>
\<close>

definition default_models :: "jsstring list" where
  "default_models =
     [js ''openai/gpt-4o'', js ''google/gemini-1.5-pro'', js ''anthropic/claude-3.5-sonnet'']"

definition candidates :: "env \<Rightarrow> jsstring list" where
  "candidates e =
     (case OPENROUTER_MODEL e of
        Some s \<Rightarrow>
          if s \<noteq> [] then filter (\<lambda>m. m \<noteq> []) (map trim (split s 0x2C))
          else default_models
      | None \<Rightarrow> default_models)"

section \<open>The handler\<close>

text \<open>
  The body of \<^verbatim>\<open>for (const modelName of candidates)\<close>: \<open>generateObject\<close> first;
  when it throws, \<open>generateText\<close> with \<open>extractJsonObject\<close> and the schema.  The
  result is the response the body returns, or \<open>None\<close> when the loop goes on to the
  next candidate.
\<close>

definition try_model ::
  "world \<Rightarrow> byte list \<Rightarrow> jsstring \<Rightarrow> nat \<Rightarrow> jsstring \<Rightarrow> call list \<times> response option" where
  "try_model w bytes mimeType i modelName =
     (case openrouter_generateObject w i modelName bytes mimeType of
        Some obj \<Rightarrow>
          ([OpenRouter_generateObject modelName],
           Some (respond_object obj (js ''openrouter:'' @ modelName)))
      | None \<Rightarrow>
          (case openrouter_generateText w i modelName bytes mimeType of
             None \<Rightarrow>
               ([OpenRouter_generateObject modelName, OpenRouter_generateText modelName], None)
           | Some text \<Rightarrow>
               (case schema_safeParse (Number_of_string w)
                       (extractJsonObject (JSON_parse w) text) of
                  None \<Rightarrow>
                    ([OpenRouter_generateObject modelName, OpenRouter_generateText modelName],
                     None)
                | Some data \<Rightarrow>
                    ([OpenRouter_generateObject modelName, OpenRouter_generateText modelName],
                     Some (respond_text data (js ''openrouter:'' @ modelName))))))"

fun try_candidates ::
  "world \<Rightarrow> byte list \<Rightarrow> jsstring \<Rightarrow> nat \<Rightarrow> jsstring list \<Rightarrow> call list \<times> response option" where
  "try_candidates w bytes mimeType i [] = ([], None)"
| "try_candidates w bytes mimeType i (modelName # rest) =
     (case try_model w bytes mimeType i modelName of
        (calls, Some r) \<Rightarrow> (calls, Some r)
      | (calls, None) \<Rightarrow>
          (case try_candidates w bytes mimeType (Suc i) rest of
             (calls', r) \<Rightarrow> (calls @ calls', r)))"

text \<open>
  The \<open>if (hasXai)\<close> block: the response it returns, or \<open>None\<close> when
  \<open>generateObject\<close> throws and the handler goes on to the fallback.
\<close>

definition try_xai :: "world \<Rightarrow> byte list \<Rightarrow> jsstring \<Rightarrow> call list \<times> response option" where
  "try_xai w bytes mimeType =
     (case xai_generateObject w bytes mimeType of
        Some obj \<Rightarrow> ([Xai_generateObject], Some (respond_object obj (js ''grok-4'')))
      | None \<Rightarrow> ([Xai_generateObject], None))"

datatype http_response = Text nat jsstring | Json response

text \<open>
  The handler from \<open>hasOpenRouter\<close> on, for the bytes read from the file and the
  MIME type \<^verbatim>\<open>file.type || "image/jpeg"\<close> given to the providers.
\<close>

definition detect :: "env \<Rightarrow> world \<Rightarrow> byte list \<Rightarrow> jsstring \<Rightarrow> call list \<times> http_response" where
  "detect e w bytes mimeType =
     (let hasOpenRouter = truthy (OPENROUTER_API_KEY e);
          (calls1, r1) = (if hasOpenRouter then try_candidates w bytes mimeType 0 (candidates e)
                          else ([], None))
      in case r1 of
           Some r \<Rightarrow> (calls1, Json r)
         | None \<Rightarrow>
             (let hasXai = truthy (XAI_API_KEY e);
                  (calls2, r2) = (if hasXai then try_xai w bytes mimeType else ([], None))
              in case r2 of
                   Some r \<Rightarrow> (calls1 @ calls2, Json r)
                 | None \<Rightarrow> (calls1 @ calls2, Json (fallback bytes))))"

text \<open>
  The request.  \<open>req.formData()\<close> throws (\<open>None\<close>) or gives the form; a field of
  the form is absent, a string or a file.  A file has a MIME type and a size, and
  \<open>arrayBuffer()\<close> gives its bytes or rejects (\<open>None\<close>).
\<close>

record jsfile =
  file_type :: jsstring
  file_size :: nat
  arrayBuffer :: "byte list option"

datatype form_entry = FileEntry jsfile | StringEntry jsstring

record form =
  image_field :: "form_entry option"
  file_field :: "form_entry option"

record request =
  formData :: "form option"

text \<open>
  The file the handler goes on with, if any:
  \<^verbatim>\<open>const file = (form.get("image") as File | null) ?? (form.get("file") as File | null)
  if (!file || !(file instanceof File)) ...\<close>
  The field \<open>file\<close> is read only when the field \<open>image\<close> is absent, and a string
  is not a file.
\<close>

definition form_file :: "form \<Rightarrow> jsfile option" where
  "form_file fm =
     (case (case image_field fm of Some entry \<Rightarrow> Some entry | None \<Rightarrow> file_field fm) of
        Some (FileEntry f) \<Rightarrow> Some f
      | _ \<Rightarrow> None)"

definition maxBytes :: nat where
  "maxBytes = 6 * 1024 * 1024"

text \<open>
  The checks at the head of the handler and the read of the file.  \<open>Inl\<close> is the
  response of an early \<open>return\<close> or of the outer \<open>catch\<close>; \<open>Inr\<close> the file
  and its bytes.
\<close>

definition validate :: "request \<Rightarrow> http_response + jsfile \<times> byte list" where
  "validate req =
     (case formData req of
        None \<Rightarrow> Inl (Text 400 (js ''Expected multipart/form-data''))
      | Some form \<Rightarrow>
          (case (case image_field form of Some entry \<Rightarrow> Some entry | None \<Rightarrow> file_field form) of
             None \<Rightarrow> Inl (Text 400 (js ''Missing image''))
           | Some (StringEntry _) \<Rightarrow> Inl (Text 400 (js ''Missing image''))
           | Some (FileEntry file) \<Rightarrow>
               if \<not> startsWith (file_type file) (js ''image/'')
               then Inl (Text 400 (js ''Invalid file type''))
               else if file_size file > maxBytes
               then Inl (Text 413 (js ''Image too large (max 6MB)''))
               else (case arrayBuffer file of
                       None \<Rightarrow> Inl (Text 500 (js ''Server error''))
                     | Some bytes \<Rightarrow> Inr (file, bytes))))"

definition POST :: "env \<Rightarrow> world \<Rightarrow> request \<Rightarrow> call list \<times> http_response" where
  "POST e w req =
     (case validate req of
        Inl early \<Rightarrow> ([], early)
      | Inr (file, bytes) \<Rightarrow>
          detect e w bytes (if file_type file \<noteq> [] then file_type file else js ''image/jpeg''))"

section \<open>The client widget\<close>

text \<open>
  The state of the \<open>Detector\<close> component (its \<open>useState\<close> cells; the cell
  \<open>file\<close> is \<open>selected_file\<close> here) and the file intake.  \<open>URL.createObjectURL\<close> belongs to the browser and is a parameter.
\<close>

record DisplayResult = detection +
  verdict :: jsstring

record detector_state =
  selected_file :: "jsfile option"
  previewUrl :: "jsstring option"
  loading :: bool
  error :: "jsstring option"
  result :: "DisplayResult option"

definition MAX_SIZE_BYTES :: nat where
  "MAX_SIZE_BYTES = 5 * 1024 * 1024"

text \<open>
  \<^verbatim>\<open>const onFiles = (files?: FileList | null) => {
    if (!files || files.length === 0) return
    const f = files[0]
    setError(null); setResult(null)
    if (!f.type.startsWith("image/")) { setError("Please upload a valid image file."); return }
    if (f.size > MAX_SIZE_BYTES) { setError("Image is too large. ..."); return }
    setFile(f); const url = URL.createObjectURL(f); setPreviewUrl(url)
  }\<close>
\<close>

definition onFiles :: "(jsfile \<Rightarrow> jsstring) \<Rightarrow> jsfile list option \<Rightarrow> detector_state \<Rightarrow> detector_state" where
  "onFiles createObjectURL files st =
     (case files of
        None \<Rightarrow> st
      | Some [] \<Rightarrow> st
      | Some (f # _) \<Rightarrow>
          (let st1 = st\<lparr>error := None, result := None\<rparr>
           in if \<not> startsWith (file_type f) (js ''image/'')
              then st1\<lparr>error := Some (js ''Please upload a valid image file.'')\<rparr>
              else if file_size f > MAX_SIZE_BYTES
              then st1\<lparr>error :=
                         Some (js ''Image is too large. Please select a file under 5MB.'')\<rparr>
              else st1\<lparr>selected_file := Some f, previewUrl := Some (createObjectURL f)\<rparr>))"

text \<open>
  The request that \<open>analyze\<close> sends for the selected file:
  \<^verbatim>\<open>const fd = new FormData(); fd.append("image", file)
  fetch("/api/detect", { method: "POST", body: fd })\<close>
  \<open>None\<close> when no file is selected and nothing is sent.
\<close>

definition analyze_request :: "detector_state \<Rightarrow> request option" where
  "analyze_request st =
     (case selected_file st of
        None \<Rightarrow> None
      | Some f \<Rightarrow>
          Some \<lparr>formData = Some \<lparr>image_field = Some (FileEntry f), file_field = None\<rparr>\<rparr>)"

section \<open>The specification's descriptions\<close>

text \<open>
  The sampled rolling hash as the specification words it: the indices
  \<open>0, step, 2 * step, ...\<close> below \<open>n\<close>, and a fold of
  \<open>h \<mapsto> (h * 31 + b[i]) mod 2^32\<close> over them from \<open>0\<close>.
\<close>

definition sampled_indices :: "nat \<Rightarrow> nat \<Rightarrow> nat list" where
  "sampled_indices n step = filter (\<lambda>i. i mod step = 0) [0..<n]"

definition spec_hash :: "byte list \<Rightarrow> nat" where
  "spec_hash b =
     fold (\<lambda>i h. (h * 31 + unat (b ! i)) mod 2 ^ 32)
       (sampled_indices (length b) (max 1 (length b div 1024))) 0"

text \<open>
  The normalised score as the specification words it:
  \<open>round (min 100 (max 0 rawScore))\<close>, a raw score that is not finite counting as 50.
\<close>

definition spec_score :: "jsnum \<Rightarrow> int" where
  "spec_score raw = round (min 100 (max 0 (case raw of Finite x \<Rightarrow> x | _ \<Rightarrow> 50)))"

text \<open>A score of the response shape: an integer from 0 to 100.\<close>

definition is_score :: "jsnum \<Rightarrow> bool" where
  "is_score s = (case s of Finite x \<Rightarrow> x = of_int \<lfloor>x\<rfloor> \<and> 0 \<le> x \<and> x \<le> 100 | _ \<Rightarrow> False)"

text \<open>
  The priority order as the specification words it: the OpenRouter candidates in
  list order when OpenRouter is configured, then xAI's grok-4 when xAI is configured.
\<close>

datatype attempt = OpenRouter_model nat jsstring | Xai_grok4

definition attempts :: "env \<Rightarrow> attempt list" where
  "attempts e =
     (if truthy (OPENROUTER_API_KEY e)
      then map (\<lambda>(i, m). OpenRouter_model i m) (enumerate 0 (candidates e)) else []) @
     (if truthy (XAI_API_KEY e) then [Xai_grok4] else [])"

text \<open>
  What an attempt is, in terms of the providers' answers alone.  An OpenRouter model
  succeeds when \<open>generateObject\<close> answers, with the normalised answer; when that call
  throws, it succeeds when \<open>generateText\<close> answers with a text from which an object
  that passes the schema can be extracted, and fails otherwise.  xAI succeeds when
  its \<open>generateObject\<close> answers.  A successful attempt gives the response that names
  the provider; \<open>None\<close> is a failed attempt.
\<close>

fun attempt_result :: "world \<Rightarrow> byte list \<Rightarrow> jsstring \<Rightarrow> attempt \<Rightarrow> response option" where
  "attempt_result w bytes mimeType (OpenRouter_model i m) =
     (case openrouter_generateObject w i m bytes mimeType of
        Some obj \<Rightarrow> Some (respond_object obj (js ''openrouter:'' @ m))
      | None \<Rightarrow>
          (case openrouter_generateText w i m bytes mimeType of
             None \<Rightarrow> None
           | Some text \<Rightarrow>
               map_option (\<lambda>data. respond_text data (js ''openrouter:'' @ m))
                 (schema_safeParse (Number_of_string w)
                    (extractJsonObject (JSON_parse w) text))))"
| "attempt_result w bytes mimeType Xai_grok4 =
     map_option (\<lambda>obj. respond_object obj (js ''grok-4'')) (xai_generateObject w bytes mimeType)"

text \<open>
  The provider calls of one attempt: \<open>generateObject\<close>, and for an OpenRouter model
  \<open>generateText\<close> after it when \<open>generateObject\<close> threw.
\<close>

fun attempt_calls :: "world \<Rightarrow> byte list \<Rightarrow> jsstring \<Rightarrow> attempt \<Rightarrow> call list" where
  "attempt_calls w bytes mimeType (OpenRouter_model i m) =
     (case openrouter_generateObject w i m bytes mimeType of
        Some obj \<Rightarrow> [OpenRouter_generateObject m]
      | None \<Rightarrow> [OpenRouter_generateObject m, OpenRouter_generateText m])"
| "attempt_calls w bytes mimeType Xai_grok4 = [Xai_generateObject]"

text \<open>\<open>pieces.join(c)\<close> for a separator of one code unit.\<close>

fun join :: "jsstring list \<Rightarrow> jschar \<Rightarrow> jsstring" where
  "join [] c = []"
| "join [p] c = p"
| "join (p # q # ps) c = p @ c # join (q # ps) c"

fun attempt_name :: "attempt \<Rightarrow> jsstring" where
  "attempt_name (OpenRouter_model i m) = js ''openrouter:'' @ m"
| "attempt_name Xai_grok4 = js ''grok-4''"

fun first_success :: "('a \<Rightarrow> 'b option) \<Rightarrow> 'a list \<Rightarrow> ('a \<times> 'b) option" where
  "first_success f [] = None"
| "first_success f (x # xs) =
     (case f x of Some y \<Rightarrow> Some (x, y) | None \<Rightarrow> first_success f xs)"

text \<open>
  The provider calls of a run that takes the attempts in order and stops at the first
  that succeeds.
\<close>

fun calls_made :: "world \<Rightarrow> byte list \<Rightarrow> jsstring \<Rightarrow> attempt list \<Rightarrow> call list" where
  "calls_made w bytes mimeType [] = []"
| "calls_made w bytes mimeType (a # rest) =
     attempt_calls w bytes mimeType a @
     (case attempt_result w bytes mimeType a of
        Some r \<Rightarrow> []
      | None \<Rightarrow> calls_made w bytes mimeType rest)"

text \<open>
  The extraction as the specification words it: the candidate texts in order, and the
  first of them that parses.
\<close>

definition json_candidates :: "jsstring \<Rightarrow> jsstring list" where
  "json_candidates text =
     (case match_fenceJson text of Some g \<Rightarrow> if g \<noteq> [] then [trim g] else [] | None \<Rightarrow> []) @
     (case match_fenceAny text of Some g \<Rightarrow> if g \<noteq> [] then [trim g] else [] | None \<Rightarrow> []) @
     (let firstBrace = indexOf text 0x7B; lastBrace = lastIndexOf text 0x7D
      in if firstBrace \<noteq> -1 \<and> lastBrace > firstBrace
         then [remove_trailing_commas (trim (js_slice text firstBrace (lastBrace + 1)))]
         else [])"

fun first_parsed :: "(jsstring \<Rightarrow> 'v option) \<Rightarrow> jsstring list \<Rightarrow> 'v option" where
  "first_parsed parse [] = None"
| "first_parsed parse (c # cs) =
     (case parse c of Some v \<Rightarrow> Some v | None \<Rightarrow> first_parsed parse cs)"

definition extractJsonObject_spec :: "(jsstring \<Rightarrow> 'v option) \<Rightarrow> jsstring \<Rightarrow> 'v option" where
  "extractJsonObject_spec parse text =
     (if text = [] then None else first_parsed parse (json_candidates text))"

section \<open>A worked example\<close>

text \<open>
  One upload, three environments and one behaviour of the providers, used to run the
  definitions on concrete inputs.  Every \<open>generateObject\<close> call to OpenRouter throws;
  \<open>generateText\<close> answers the first candidate with prose and the second with a JSON
  object behind a word of prose and with a trailing comma; xAI would answer 72.5.
  \<open>example_parse\<close> agrees with \<open>JSON.parse\<close> on the texts it is given here.
\<close>

definition example_file :: jsfile where
  "example_file = \<lparr>file_type = js ''image/png'', file_size = 3, arrayBuffer = Some [1, 2, 3]\<rparr>"

definition example_request :: request where
  "example_request =
     \<lparr>formData = Some \<lparr>image_field = Some (FileEntry example_file), file_field = None\<rparr>\<rparr>"

definition example_parse :: "jsstring \<Rightarrow> json option" where
  \<open>example_parse s =
     (if s = js ''{"score":80,"reason":"synthetic texture"}''
      then Some (JObject [(js ''score'', JNumber (Finite 80)),
                          (js ''reason'', JString (js ''synthetic texture''))])
      else None)\<close>

definition example_world :: world where
  \<open>example_world =
     \<lparr>JSON_parse = example_parse,
      Number_of_string = (\<lambda>s. NaN),
      openrouter_generateObject = (\<lambda>i m b t. None),
      openrouter_generateText =
        (\<lambda>i m b t. if i = 1 then Some (js ''Sure: {"score":80,"reason":"synthetic texture",}'')
                   else Some (js ''I cannot tell.'')),
      xai_generateObject =
        (\<lambda>b t. Some \<lparr>score = Finite (145 / 2), reason = js ''sensor noise absent''\<rparr>)\<rparr>\<close>

text \<open>
  Three more behaviours: OpenRouter's \<open>generateObject\<close> answers the first candidate
  with 12.4; OpenRouter answers every candidate with prose, so that only xAI succeeds;
  every provider call throws.
\<close>

definition strict_world :: world where
  "strict_world =
     example_world\<lparr>openrouter_generateObject :=
        (\<lambda>i m b t. if i = 0 then Some \<lparr>score = Finite (62 / 5), reason = js ''sensor noise''\<rparr>
                   else None)\<rparr>"

definition prose_world :: world where
  "prose_world =
     example_world\<lparr>openrouter_generateText := (\<lambda>i m b t. Some (js ''I cannot tell.''))\<rparr>"

definition silent_world :: world where
  "silent_world =
     example_world\<lparr>openrouter_generateText := (\<lambda>i m b t. None),
                   xai_generateObject := (\<lambda>b t. None)\<rparr>"

definition example_env :: env where
  "example_env =
     \<lparr>OPENROUTER_API_KEY = Some (js ''key''),
      OPENROUTER_MODEL = Some (js '' model-a , ,model-b''),
      XAI_API_KEY = Some (js ''key'')\<rparr>"

definition xai_only_env :: env where
  "xai_only_env =
     \<lparr>OPENROUTER_API_KEY = None, OPENROUTER_MODEL = None, XAI_API_KEY = Some (js ''key'')\<rparr>"

definition empty_env :: env where
  "empty_env = \<lparr>OPENROUTER_API_KEY = None, OPENROUTER_MODEL = None, XAI_API_KEY = None\<rparr>"

section \<open>The fallback heuristic is the sampled rolling hash\<close>

text \<open>
  Between a multiple of the step and the next one there is no sampled index, so the
  loop, which jumps by the step, visits the multiples of the step below the length.
\<close>

lemma no_multiple_between:
  assumes "i mod s = 0" "i < j" "j < i + s"
  shows "j mod s \<noteq> (0::nat)"
proof
  assume "j mod s = 0"
  with assms(1) have "s dvd j - i" by (simp add: dvd_diff_nat mod_eq_0_iff_dvd)
  moreover have "0 < j - i" "j - i < s" using assms by auto
  ultimately show False by (meson dvd_imp_le not_less)
qed

lemma filter_skip:
  assumes "i mod s = 0" and pos: "0 < s"
  shows "filter (\<lambda>j. j mod s = 0) [Suc i..<n] = filter (\<lambda>j. j mod s = (0::nat)) [i + s..<n]"
proof (cases "i + s \<le> n")
  case True
  have "Suc i \<le> i + s" using pos by simp
  moreover obtain k where "n = (i + s) + k" using True le_Suc_ex by blast
  ultimately have "[Suc i..<n] = [Suc i..<i + s] @ [i + s..<n]"
    using upt_add_eq_append [of "Suc i" "i + s" k] by blast
  moreover have "filter (\<lambda>j. j mod s = 0) [Suc i..<i + s] = []"
    using no_multiple_between [OF assms(1)] by (auto simp: filter_empty_conv)
  ultimately show ?thesis by simp
next
  case False
  then have "filter (\<lambda>j. j mod s = 0) [Suc i..<n] = []"
    using no_multiple_between [OF assms(1)] by (auto simp: filter_empty_conv)
  with False show ?thesis by simp
qed

lemma step_of_pos: "0 < step_of view"
  by (simp add: step_of_def)

lemma hash_loop_fold:
  "i mod step_of view = 0 \<Longrightarrow>
   hash_loop view i h =
     fold (\<lambda>i h. (h * 31 + unat (view ! i)) mod 2 ^ 32)
       (filter (\<lambda>j. j mod step_of view = 0) [i..<length view]) h"
proof (induction view i h rule: hash_loop.induct)
  case (1 view i hash)
  show ?case
  proof (cases "i < length view")
    case True
    have m: "(i + step_of view) mod step_of view = 0" using "1.prems" by simp
    have "[i..<length view] = i # [Suc i..<length view]" using True by (simp add: upt_conv_Cons)
    then show ?thesis
      using True "1.IH" [OF True m] "1.prems"
        filter_skip [OF "1.prems" step_of_pos, of "length view"]
      by (subst hash_loop.simps) simp
  next
    case False
    then show ?thesis by (subst hash_loop.simps) simp
  qed
qed

lemma hash_loop_spec_hash: "hash_loop b 0 0 = spec_hash b"
  using hash_loop_fold [of 0 b 0] by (simp add: spec_hash_def sampled_indices_def step_of_def)

lemma length_reasons: "length reasons = 8"
  by (simp add: reasons_def)

text \<open>
  Claim C1.  For every byte array \<open>b\<close> the fallback heuristic returns the score
  \<open>hash mod 101\<close>, an integer from 0 to 100, the label of that score, the entry
  \<open>hash mod 8\<close> of the table of eight reasons and the provider \<open>fallback\<close>, where
  \<open>hash\<close> is the fold of \<open>h \<mapsto> (h * 31 + b[i]) mod 2^32\<close> from 0 over the indices
  \<open>0, step, 2 * step, ...\<close> below the length, with
  \<open>step = max 1 (length b div 1024)\<close>.  The result is a function of \<open>b\<close> alone.
\<close>

theorem fallback_is_sampled_rolling_hash:
  "fallback b =
     \<lparr>score = Finite (real (spec_hash b mod 101)),
      reason = reasons ! (spec_hash b mod 8),
      label = label_of (Finite (real (spec_hash b mod 101))),
      provider = js ''fallback''\<rparr>
   \<and> spec_hash b mod 101 \<le> 100 \<and> spec_hash b mod 8 < length reasons"
proof -
  have loop: "hash_loop b 0 0 = spec_hash b"
    by (rule hash_loop_spec_hash)
  have table: "spec_hash b mod length reasons = spec_hash b mod 8"
    by (simp add: length_reasons)
  have "fallback b =
     \<lparr>score = Finite (real (spec_hash b mod 101)),
      reason = reasons ! (spec_hash b mod 8),
      label = label_of (Finite (real (spec_hash b mod 101))),
      provider = js ''fallback''\<rparr>"
    unfolding fallback_def Let_def loop table ..
  moreover have "spec_hash b mod 101 \<le> 100" by simp
  moreover have "spec_hash b mod 8 < length reasons" by (simp add: length_reasons)
  ultimately show ?thesis by blast
qed

theorem fallback_is_sampled_rolling_hash_witness:
  "spec_hash [1, 2, 3] = 1026
   \<and> fallback [1, 2, 3] =
     \<lparr>score = Finite 16, reason = js ''EXIF fields appear atypical for camera devices.'',
      label = js ''Human-Captured'', provider = js ''fallback''\<rparr>"
proof -
  have h: "spec_hash [1, 2, 3] = 1026"
    by (simp add: spec_hash_def sampled_indices_def)
  show ?thesis
    using fallback_is_sampled_rolling_hash [of "[1, 2, 3]"]
    by (simp add: h reasons_def label_of_def)
qed

section \<open>The worked example\<close>

lemma example_candidates: "candidates example_env = [js ''model-a'', js ''model-b'']"
  by (simp add: candidates_def example_env_def js_def trim_def is_space_def)

lemma example_validate: "validate example_request = Inr (example_file, [1, 2, 3])"
  by (simp add: validate_def example_request_def example_file_def startsWith_def js_def maxBytes_def)

lemma example_extract:
  \<open>extractJsonObject example_parse (js ''Sure: {"score":80,"reason":"synthetic texture",}'')
   = Some (JObject [(js ''score'', JNumber (Finite 80)),
                    (js ''reason'', JString (js ''synthetic texture''))])\<close>
  by (simp add: extractJsonObject_def example_parse_def js_def fence_def startsWith_def
      trim_def is_space_def lastIndexOf_def js_slice_def)

lemma example_extract_prose:
  "extractJsonObject example_parse (js ''I cannot tell.'') = None"
  by (simp add: extractJsonObject_def js_def fence_def startsWith_def lastIndexOf_def)

lemma example_safeParse:
  "schema_safeParse (\<lambda>s. NaN)
     (Some (JObject [(js ''score'', JNumber (Finite 80)),
                     (js ''reason'', JString (js ''synthetic texture''))]))
   = Some \<lparr>score = Finite 80, reason = js ''synthetic texture''\<rparr>"
  by (simp add: schema_safeParse_def schema_score_def schema_reason_def js_def)

lemma example_try_model_a:
  "try_model example_world b t 0 (js ''model-a'')
   = ([OpenRouter_generateObject (js ''model-a''), OpenRouter_generateText (js ''model-a'')], None)"
  by (simp add: try_model_def example_world_def example_extract_prose schema_safeParse_def)

lemma example_try_model_b:
  "try_model example_world b t (Suc 0) (js ''model-b'')
   = ([OpenRouter_generateObject (js ''model-b''), OpenRouter_generateText (js ''model-b'')],
      Some \<lparr>score = Finite 80, reason = js ''synthetic texture'',
            label = js ''AI-Generated'', provider = js ''openrouter:model-b''\<rparr>)"
proof -
  have "respond_text \<lparr>score = Finite 80, reason = js ''synthetic texture''\<rparr>
          (js ''openrouter:'' @ js ''model-b'')
        = \<lparr>score = Finite 80, reason = js ''synthetic texture'',
            label = js ''AI-Generated'', provider = js ''openrouter:model-b''\<rparr>"
    by (simp add: respond_text_def normalize_score_text_def label_of_def js_slice_def js_def)
  then show ?thesis
    by (simp add: try_model_def example_world_def example_extract example_safeParse)
qed

lemma example_try_xai:
  "try_xai example_world b t
   = ([Xai_generateObject],
      Some \<lparr>score = Finite 73, reason = js ''sensor noise absent'',
            label = js ''AI-Generated'', provider = js ''grok-4''\<rparr>)"
  by (simp add: try_xai_def example_world_def respond_object_def normalize_score_def
      label_of_def js_slice_def js_def)

lemma example_POST:
  "POST example_env example_world example_request
   = ([OpenRouter_generateObject (js ''model-a''), OpenRouter_generateText (js ''model-a''),
       OpenRouter_generateObject (js ''model-b''), OpenRouter_generateText (js ''model-b'')],
      Json \<lparr>score = Finite 80, reason = js ''synthetic texture'',
            label = js ''AI-Generated'', provider = js ''openrouter:model-b''\<rparr>)"
proof -
  have "truthy (OPENROUTER_API_KEY example_env)"
    by (simp add: example_env_def truthy_def js_def)
  then show ?thesis
    by (simp add: POST_def example_validate detect_def example_candidates
        example_try_model_a example_try_model_b)
qed

lemma xai_only_POST:
  "POST xai_only_env example_world example_request
   = ([Xai_generateObject],
      Json \<lparr>score = Finite 73, reason = js ''sensor noise absent'',
            label = js ''AI-Generated'', provider = js ''grok-4''\<rparr>)"
  by (simp add: POST_def example_validate detect_def xai_only_env_def truthy_def js_def
      example_try_xai)

lemma empty_env_POST:
  "POST empty_env example_world example_request = ([], Json (fallback [1, 2, 3]))"
  by (simp add: POST_def example_validate detect_def empty_env_def truthy_def)

lemma example_env_keys:
  "truthy (OPENROUTER_API_KEY example_env)" "truthy (XAI_API_KEY example_env)"
  by (simp_all add: example_env_def truthy_def js_def)

lemma strict_try_model_a:
  "try_model strict_world b t 0 (js ''model-a'')
   = ([OpenRouter_generateObject (js ''model-a'')],
      Some \<lparr>score = Finite 12, reason = js ''sensor noise'',
            label = js ''Human-Captured'', provider = js ''openrouter:model-a''\<rparr>)"
proof -
  have "respond_object \<lparr>score = Finite (62 / 5), reason = js ''sensor noise''\<rparr>
          (js ''openrouter:'' @ js ''model-a'')
        = \<lparr>score = Finite 12, reason = js ''sensor noise'',
            label = js ''Human-Captured'', provider = js ''openrouter:model-a''\<rparr>"
    by (simp add: respond_object_def normalize_score_def label_of_def js_slice_def js_def)
  then show ?thesis
    by (simp add: try_model_def strict_world_def example_world_def)
qed

lemma strict_POST:
  "POST example_env strict_world example_request
   = ([OpenRouter_generateObject (js ''model-a'')],
      Json \<lparr>score = Finite 12, reason = js ''sensor noise'',
            label = js ''Human-Captured'', provider = js ''openrouter:model-a''\<rparr>)"
  using example_env_keys
  by (simp add: POST_def example_validate detect_def example_candidates strict_try_model_a)

lemma prose_try_model:
  "try_model prose_world b t i m
   = ([OpenRouter_generateObject m, OpenRouter_generateText m], None)"
  by (simp add: try_model_def prose_world_def example_world_def example_extract_prose
      schema_safeParse_def)

lemma prose_try_xai:
  "try_xai prose_world b t
   = ([Xai_generateObject],
      Some \<lparr>score = Finite 73, reason = js ''sensor noise absent'',
            label = js ''AI-Generated'', provider = js ''grok-4''\<rparr>)"
  using example_try_xai [of b t]
  by (simp add: try_xai_def prose_world_def example_world_def)

lemma prose_POST:
  "POST example_env prose_world example_request
   = ([OpenRouter_generateObject (js ''model-a''), OpenRouter_generateText (js ''model-a''),
       OpenRouter_generateObject (js ''model-b''), OpenRouter_generateText (js ''model-b''),
       Xai_generateObject],
      Json \<lparr>score = Finite 73, reason = js ''sensor noise absent'',
            label = js ''AI-Generated'', provider = js ''grok-4''\<rparr>)"
  using example_env_keys
  by (simp add: POST_def example_validate detect_def example_candidates prose_try_model
      prose_try_xai)

lemma silent_try_model:
  "try_model silent_world b t i m
   = ([OpenRouter_generateObject m, OpenRouter_generateText m], None)"
  by (simp add: try_model_def silent_world_def example_world_def)

lemma silent_try_xai: "try_xai silent_world b t = ([Xai_generateObject], None)"
  by (simp add: try_xai_def silent_world_def example_world_def)

lemma silent_POST:
  "POST example_env silent_world example_request
   = ([OpenRouter_generateObject (js ''model-a''), OpenRouter_generateText (js ''model-a''),
       OpenRouter_generateObject (js ''model-b''), OpenRouter_generateText (js ''model-b''),
       Xai_generateObject],
      Json (fallback [1, 2, 3]))"
  using example_env_keys
  by (simp add: POST_def example_validate detect_def example_candidates silent_try_model
      silent_try_xai)

section \<open>Normalised scores\<close>

text \<open>
  On finite numbers the clamp of the handler, \<open>Math.max(0, Math.min(100, x))\<close>, is the
  clamp of the specification, \<open>min 100 (max 0 x)\<close>, and \<open>Math.round\<close> is \<open>round\<close>.
\<close>

lemma clamp_Finite:
  "Math_max (Finite 0) (Math_min (Finite 100) (Finite x)) = Finite (min 100 (max 0 x))"
  by (simp add: min_def max_def)

lemma normalize_score_spec_score: "normalize_score raw = Finite (of_int (spec_score raw))"
  by (cases raw) (simp_all add: normalize_score_def spec_score_def clamp_Finite round_def)

lemma spec_score_bounds: "0 \<le> spec_score raw \<and> spec_score raw \<le> 100"
proof -
  define x where "x = min 100 (max 0 (case raw of Finite x \<Rightarrow> x | _ \<Rightarrow> (50::real)))"
  have "0 \<le> x" "x \<le> 100" by (simp_all add: x_def)
  then have "0 \<le> round x" "round x \<le> 100"
    using round_mono [of 0 x] round_mono [of x 100] by simp_all
  then show ?thesis by (simp add: spec_score_def x_def)
qed

lemma is_score_of_int: "0 \<le> n \<Longrightarrow> n \<le> 100 \<Longrightarrow> is_score (Finite (of_int n))"
  by (simp add: is_score_def)

lemma is_score_normalize_score: "is_score (normalize_score raw)"
  using spec_score_bounds [of raw] by (simp add: normalize_score_spec_score is_score_of_int)

lemma schema_score_range:
  "schema_score Number v = Some n \<Longrightarrow> \<exists>x. n = Finite x \<and> 0 \<le> x \<and> x \<le> 100"
  by (cases n)
     (auto simp: schema_score_def Let_def split: option.splits json.splits if_splits)

lemma schema_safeParse_score:
  "schema_safeParse Number parsed = Some d \<Longrightarrow> \<exists>x. score d = Finite x \<and> 0 \<le> x \<and> x \<le> 100"
  by (auto simp: schema_safeParse_def split: option.splits json.splits dest: schema_score_range)

lemma normalize_score_text_Finite:
  "normalize_score_text (Finite x) = normalize_score (Finite x)"
  by (simp add: normalize_score_text_def normalize_score_def)

lemma normalize_score_text_schema:
  "schema_safeParse Number parsed = Some d \<Longrightarrow>
   normalize_score_text (score d) = Finite (of_int (spec_score (score d)))"
  using schema_safeParse_score [of Number parsed d]
  by (auto simp: normalize_score_text_Finite normalize_score_spec_score)

text \<open>
  Claim C3.  For every raw score a provider returns the normaliser gives
  \<open>round (min 100 (max 0 rawScore))\<close>, a raw score that is not finite counting as 50,
  and the result is an integer from 0 to 100.  After \<open>generateObject\<close> the handler
  tests for a finite number itself; after the text parse the raw score has passed the
  schema, which admits finite numbers from 0 to 100 only.
\<close>

theorem normalized_score_is_clamped_and_rounded:
  "normalize_score raw = Finite (of_int (spec_score raw))
   \<and> (schema_safeParse Number parsed = Some d \<longrightarrow>
        normalize_score_text (score d) = Finite (of_int (spec_score (score d))))
   \<and> 0 \<le> spec_score raw \<and> spec_score raw \<le> 100"
  using normalize_score_spec_score [of raw] normalize_score_text_schema [of Number parsed d]
    spec_score_bounds [of raw]
  by blast

theorem normalized_score_is_clamped_and_rounded_witness:
  "normalize_score (Finite (145 / 2)) = Finite 73
   \<and> normalize_score PosInf = Finite 50
   \<and> schema_safeParse (\<lambda>s. NaN)
        (Some (JObject [(js ''score'', JNumber (Finite (173 / 2))),
                        (js ''reason'', JString (js ''synthetic texture''))]))
      = Some \<lparr>score = Finite (173 / 2), reason = js ''synthetic texture''\<rparr>
   \<and> normalize_score_text (Finite (173 / 2)) = Finite 87"
proof -
  have p: "schema_safeParse (\<lambda>s. NaN)
        (Some (JObject [(js ''score'', JNumber (Finite (173 / 2))),
                        (js ''reason'', JString (js ''synthetic texture''))]))
      = Some \<lparr>score = Finite (173 / 2), reason = js ''synthetic texture''\<rparr>"
    by (simp add: schema_safeParse_def schema_score_def schema_reason_def js_def)
  have a: "spec_score (Finite (145 / 2)) = 73"
    by (simp add: spec_score_def round_def)
  have b: "spec_score PosInf = 50"
    by (simp add: spec_score_def)
  have c: "spec_score (Finite (173 / 2)) = 87"
    by (simp add: spec_score_def round_def)
  show ?thesis
    using normalized_score_is_clamped_and_rounded
            [of "Finite (145 / 2)" "\<lambda>s. NaN"
                "Some (JObject [(js ''score'', JNumber (Finite (173 / 2))),
                        (js ''reason'', JString (js ''synthetic texture''))])"
                "\<lparr>score = Finite (173 / 2), reason = js ''synthetic texture''\<rparr>"]
          normalized_score_is_clamped_and_rounded [of PosInf "\<lambda>s. NaN" None "\<lparr>score = NaN, reason = []\<rparr>"]
          p
    by (simp add: a b c)
qed

section \<open>The shape of a response\<close>

text \<open>
  Each of the four places that build a response gives a score that is an integer from
  0 to 100, the label of that score and a reason of at most 200 code units; so does
  every JSON response of the handler.
\<close>

lemma label_of_Finite:
  "(label_of (Finite x) = js ''Human-Captured'' \<longleftrightarrow> x < 45)
   \<and> (label_of (Finite x) = js ''Uncertain'' \<longleftrightarrow> 45 \<le> x \<and> x \<le> 55)
   \<and> (label_of (Finite x) = js ''AI-Generated'' \<longleftrightarrow> 55 < x)"
  by (simp add: label_of_def js_def)

lemma label_of_three:
  "label_of s \<in> {js ''AI-Generated'', js ''Human-Captured'', js ''Uncertain''}"
  by (simp add: label_of_def)

lemma length_slice_200: "length (js_slice s 0 200) \<le> 200"
  by (simp add: js_slice_def Let_def)

lemma reasons_short: "\<forall>r\<in>set reasons. length r < 200"
  by (simp add: reasons_def js_def)

lemma respond_object_shape:
  "is_score (score (respond_object obj p))
   \<and> label (respond_object obj p) = label_of (score (respond_object obj p))
   \<and> length (reason (respond_object obj p)) \<le> 200"
  by (simp add: respond_object_def Let_def is_score_normalize_score length_slice_200)

lemma respond_text_shape:
  assumes "schema_safeParse Number parsed = Some d"
  shows "is_score (score (respond_text d p))
   \<and> label (respond_text d p) = label_of (score (respond_text d p))
   \<and> length (reason (respond_text d p)) \<le> 200"
  using normalize_score_text_schema [OF assms] spec_score_bounds [of "score d"]
  by (simp add: respond_text_def Let_def is_score_of_int length_slice_200)

lemma fallback_shape:
  "is_score (score (fallback b))
   \<and> label (fallback b) = label_of (score (fallback b))
   \<and> length (reason (fallback b)) \<le> 200"
proof -
  have "hash_loop b 0 0 mod length reasons < length reasons"
    by (simp add: reasons_def)
  then have "reasons ! (hash_loop b 0 0 mod length reasons) \<in> set reasons"
    by (rule nth_mem)
  then have "length (reasons ! (hash_loop b 0 0 mod length reasons)) < 200"
    using reasons_short by blast
  moreover have "is_score (Finite (real (hash_loop b 0 0 mod 101)))"
    using is_score_of_int [of "int (hash_loop b 0 0 mod 101)"] by simp
  ultimately show ?thesis
    by (simp add: fallback_def Let_def)
qed

lemma try_model_shape:
  "try_model w bytes mimeType i m = (cs, Some r) \<Longrightarrow>
   is_score (score r) \<and> label r = label_of (score r) \<and> length (reason r) \<le> 200"
  by (auto simp: try_model_def respond_object_shape respond_text_shape split: option.splits)

lemma try_candidates_shape:
  "try_candidates w bytes mimeType i ms = (cs, Some r) \<Longrightarrow>
   is_score (score r) \<and> label r = label_of (score r) \<and> length (reason r) \<le> 200"
proof (induction ms arbitrary: i cs)
  case Nil
  then show ?case by simp
next
  case (Cons m ms)
  show ?case
  proof (cases "try_model w bytes mimeType i m")
    case (Pair cs1 r1)
    show ?thesis
    proof (cases r1)
      case None
      then obtain cs2 where "try_candidates w bytes mimeType (Suc i) ms = (cs2, Some r)"
        using Cons.prems Pair by (auto split: prod.splits)
      then show ?thesis by (rule Cons.IH)
    next
      case (Some r')
      then have "r' = r" using Cons.prems Pair by simp
      then show ?thesis using try_model_shape Pair Some by blast
    qed
  qed
qed

lemma try_xai_shape:
  "try_xai w bytes mimeType = (cs, Some r) \<Longrightarrow>
   is_score (score r) \<and> label r = label_of (score r) \<and> length (reason r) \<le> 200"
  by (auto simp: try_xai_def respond_object_shape split: option.splits)

lemma detect_shape:
  assumes "detect e w bytes mimeType = (cs, Json r)"
  shows "is_score (score r) \<and> label r = label_of (score r) \<and> length (reason r) \<le> 200"
proof -
  obtain c1 r1 where one:
    "(if truthy (OPENROUTER_API_KEY e) then try_candidates w bytes mimeType 0 (candidates e)
      else ([], None)) = (c1, r1)"
    by (cases "if truthy (OPENROUTER_API_KEY e) then try_candidates w bytes mimeType 0 (candidates e)
      else ([], None)") blast
  obtain c2 r2 where two:
    "(if truthy (XAI_API_KEY e) then try_xai w bytes mimeType else ([], None)) = (c2, r2)"
    by (cases "if truthy (XAI_API_KEY e) then try_xai w bytes mimeType else ([], None)") blast
  show ?thesis
  proof (cases r1)
    case (Some r')
    then have "r' = r" using assms one by (simp add: detect_def)
    then have "try_candidates w bytes mimeType 0 (candidates e) = (c1, Some r)"
      using one Some by (simp split: if_splits)
    then show ?thesis by (rule try_candidates_shape)
  next
    case None
    show ?thesis
    proof (cases r2)
      case (Some r')
      then have "r' = r" using assms one two None by (simp add: detect_def)
      then have "try_xai w bytes mimeType = (c2, Some r)"
        using two Some by (simp split: if_splits)
      then show ?thesis by (rule try_xai_shape)
    next
      case None2: None
      then have "r = fallback bytes" using assms one two None by (simp add: detect_def)
      then show ?thesis by (simp add: fallback_shape)
    qed
  qed
qed

lemma POST_Json_detect:
  "POST e w req = (cs, Json r) \<Longrightarrow>
   \<exists>f bytes. validate req = Inr (f, bytes)
     \<and> detect e w bytes (if file_type f \<noteq> [] then file_type f else js ''image/jpeg'') = (cs, Json r)"
  by (cases "validate req")
     (auto simp: POST_def validate_def split: option.splits form_entry.splits if_splits)

lemma POST_shape:
  "POST e w req = (cs, Json r) \<Longrightarrow>
   is_score (score r) \<and> label r = label_of (score r) \<and> length (reason r) \<le> 200"
  using POST_Json_detect detect_shape by blast

lemma is_score_int:
  assumes "is_score s"
  shows "\<exists>n::int. s = Finite (of_int n) \<and> 0 \<le> n \<and> n \<le> 100"
proof -
  obtain x where x: "s = Finite x" "x = of_int \<lfloor>x\<rfloor>" "0 \<le> x" "x \<le> 100"
    using assms by (auto simp: is_score_def split: jsnum.splits)
  have "0 \<le> \<lfloor>x\<rfloor>" "\<lfloor>x\<rfloor> \<le> 100"
    using x(3,4) by (simp_all add: floor_le_iff)
  then show ?thesis using x(1,2) by metis
qed

text \<open>
  Claim C4.  On every response path (each provider branch and the fallback) the label
  is one of the three strings and is determined by the score of the response:
  \<open>Human-Captured\<close> exactly when the score is below 45, \<open>Uncertain\<close> exactly when
  it is from 45 to 55, \<open>AI-Generated\<close> exactly when it is above 55.
\<close>

theorem label_is_determined_by_score:
  assumes "POST e w req = (cs, Json r)"
  shows "label r \<in> {js ''AI-Generated'', js ''Human-Captured'', js ''Uncertain''}
    \<and> (\<exists>n::int. score r = Finite (of_int n)
          \<and> (label r = js ''Human-Captured'' \<longleftrightarrow> n < 45)
          \<and> (label r = js ''Uncertain'' \<longleftrightarrow> 45 \<le> n \<and> n \<le> 55)
          \<and> (label r = js ''AI-Generated'' \<longleftrightarrow> 55 < n))"
proof -
  have shape: "is_score (score r)" "label r = label_of (score r)"
    using POST_shape [OF assms] by simp_all
  obtain n :: int where n: "score r = Finite (of_int n)"
    using is_score_int [OF shape(1)] by blast
  have "(label r = js ''Human-Captured'' \<longleftrightarrow> n < 45)
      \<and> (label r = js ''Uncertain'' \<longleftrightarrow> 45 \<le> n \<and> n \<le> 55)
      \<and> (label r = js ''AI-Generated'' \<longleftrightarrow> 55 < n)"
    using label_of_Finite [of "of_int n"] shape(2) n by simp
  then show ?thesis
    using n shape(2) label_of_three [of "score r"] by auto
qed

theorem label_is_determined_by_score_witness:
  "POST example_env example_world example_request
   = ([OpenRouter_generateObject (js ''model-a''), OpenRouter_generateText (js ''model-a''),
       OpenRouter_generateObject (js ''model-b''), OpenRouter_generateText (js ''model-b'')],
      Json \<lparr>score = Finite 80, reason = js ''synthetic texture'',
            label = js ''AI-Generated'', provider = js ''openrouter:model-b''\<rparr>)
   \<and> (\<exists>n::int. Finite 80 = Finite (of_int n) \<and> 55 < n)"
  using label_is_determined_by_score [OF example_POST] example_POST by auto

text \<open>
  Claim C10.  Every JSON response of the endpoint, on every path, has a score that is
  an integer from 0 to 100, one of the three labels and a reason of at most 200 code
  units; every reason of the fallback table is shorter than 200.
\<close>

theorem response_shape_invariant:
  assumes "POST e w req = (cs, Json r)"
  shows "(\<exists>n::int. score r = Finite (of_int n) \<and> 0 \<le> n \<and> n \<le> 100)
    \<and> label r \<in> {js ''AI-Generated'', js ''Human-Captured'', js ''Uncertain''}
    \<and> length (reason r) \<le> 200
    \<and> (\<forall>x\<in>set reasons. length x < 200)"
proof -
  have shape: "is_score (score r)" "label r = label_of (score r)" "length (reason r) \<le> 200"
    using POST_shape [OF assms] by simp_all
  have "\<exists>n::int. score r = Finite (of_int n) \<and> 0 \<le> n \<and> n \<le> 100"
    using is_score_int [OF shape(1)] .
  then show ?thesis
    using shape label_of_three [of "score r"] reasons_short by simp
qed

theorem response_shape_invariant_witness:
  "POST xai_only_env example_world example_request
   = ([Xai_generateObject],
      Json \<lparr>score = Finite 73, reason = js ''sensor noise absent'',
            label = js ''AI-Generated'', provider = js ''grok-4''\<rparr>)
   \<and> (\<exists>n::int. Finite 73 = Finite (of_int n) \<and> 0 \<le> n \<and> n \<le> 100)
   \<and> length (js ''sensor noise absent'') \<le> 200"
  using response_shape_invariant [OF xai_only_POST] xai_only_POST by auto

section \<open>The order of the providers\<close>

text \<open>
  The loop over the candidates followed by the xAI block is a search for the first
  success in the list of attempts, and the calls it makes are those of the attempts
  up to that success.
\<close>

lemma first_success_append:
  "first_success f (xs @ ys) =
     (case first_success f xs of Some p \<Rightarrow> Some p | None \<Rightarrow> first_success f ys)"
  by (induction xs) (auto split: option.splits)

lemma first_success_None: "first_success f xs = None \<longleftrightarrow> (\<forall>x\<in>set xs. f x = None)"
  by (induction xs) (auto split: option.splits)

lemma first_success_Some:
  "first_success f xs = Some (a, r) \<Longrightarrow>
   \<exists>before after. xs = before @ a # after \<and> (\<forall>x\<in>set before. f x = None) \<and> f a = Some r"
proof (induction xs)
  case Nil
  then show ?case by simp
next
  case (Cons x xs)
  show ?case
  proof (cases "f x")
    case None
    then have "first_success f xs = Some (a, r)" using Cons.prems by simp
    then obtain before after where
      "xs = before @ a # after" "\<forall>x\<in>set before. f x = None" "f a = Some r"
      using Cons.IH by blast
    then have "x # xs = (x # before) @ a # after \<and> (\<forall>y\<in>set (x # before). f y = None) \<and> f a = Some r"
      using None by simp
    then show ?thesis by blast
  next
    case (Some y)
    then have "x = a" "y = r" using Cons.prems by simp_all
    then have "x # xs = [] @ a # xs \<and> (\<forall>y\<in>set []. f y = None) \<and> f a = Some r"
      using Some by simp
    then show ?thesis by blast
  qed
qed

text \<open>
  The body of the loop and the xAI block do what an attempt is: they make its calls
  and return its result.
\<close>

lemma try_model_attempt:
  "try_model w bytes t i m =
     (attempt_calls w bytes t (OpenRouter_model i m),
      attempt_result w bytes t (OpenRouter_model i m))"
  by (simp add: try_model_def split: option.splits)

lemma try_xai_attempt:
  "try_xai w bytes t = (attempt_calls w bytes t Xai_grok4, attempt_result w bytes t Xai_grok4)"
  by (simp add: try_xai_def split: option.splits)

lemma attempt_by_handler:
  "attempt_result w bytes t (OpenRouter_model i m) = snd (try_model w bytes t i m)"
  "attempt_result w bytes t Xai_grok4 = snd (try_xai w bytes t)"
  "attempt_calls w bytes t (OpenRouter_model i m) = fst (try_model w bytes t i m)"
  "attempt_calls w bytes t Xai_grok4 = fst (try_xai w bytes t)"
  by (simp_all add: try_model_attempt try_xai_attempt)

lemma try_candidates_first_success:
  "snd (try_candidates w bytes t i ms) =
     map_option snd
       (first_success (attempt_result w bytes t)
          (map (\<lambda>(i, m). OpenRouter_model i m) (enumerate i ms)))"
proof (induction ms arbitrary: i)
  case Nil
  then show ?case by simp
next
  case (Cons m ms)
  show ?case
  proof (cases "try_model w bytes t i m")
    case (Pair cs r)
    then show ?thesis
      using Cons.IH [of "Suc i"]
      by (cases r)
         (auto simp: attempt_by_handler simp del: attempt_result.simps attempt_calls.simps
            split: prod.splits)
  qed
qed

lemma try_model_provider:
  "snd (try_model w bytes t i m) = Some r \<Longrightarrow> provider r = js ''openrouter:'' @ m"
  by (auto simp: try_model_def respond_object_def respond_text_def Let_def split: option.splits)

lemma try_xai_provider:
  "snd (try_xai w bytes t) = Some r \<Longrightarrow> provider r = js ''grok-4''"
  by (auto simp: try_xai_def respond_object_def Let_def split: option.splits)

lemma attempt_result_provider:
  "attempt_result w bytes t a = Some r \<Longrightarrow> provider r = attempt_name a"
  by (cases a)
     (simp_all add: attempt_by_handler try_model_provider try_xai_provider
        del: attempt_result.simps)

lemma attempt_name_not_fallback: "attempt_name a \<noteq> js ''fallback''"
  by (cases a) (simp_all add: js_def)

lemma provider_fallback: "provider (fallback b) = js ''fallback''"
  by (simp add: fallback_def Let_def)

lemma detect_first_success:
  "snd (detect e w bytes t) =
     Json (case first_success (attempt_result w bytes t) (attempts e) of
             Some (a, r) \<Rightarrow> r
           | None \<Rightarrow> fallback bytes)"
proof -
  let ?or = "map (\<lambda>(i, m). OpenRouter_model i m) (enumerate 0 (candidates e))"
  have one: "snd (try_candidates w bytes t 0 (candidates e))
             = map_option snd (first_success (attempt_result w bytes t) ?or)"
    by (rule try_candidates_first_success)
  show ?thesis
  proof (cases "truthy (OPENROUTER_API_KEY e)")
    case True
    show ?thesis
    proof (cases "try_candidates w bytes t 0 (candidates e)")
      case (Pair c1 r1)
      then show ?thesis
        using one True
        by (cases r1; cases "try_xai w bytes t"; cases "snd (try_xai w bytes t)")
           (auto simp: detect_def attempts_def first_success_append attempt_by_handler
              simp del: attempt_result.simps attempt_calls.simps split: option.splits)
    qed
  next
    case False
    then show ?thesis
      by (cases "try_xai w bytes t"; cases "snd (try_xai w bytes t)")
         (auto simp: detect_def attempts_def attempt_by_handler
            simp del: attempt_result.simps attempt_calls.simps split: option.splits)
  qed
qed

lemma calls_made_append:
  "calls_made w bytes t (xs @ ys) =
     calls_made w bytes t xs @
     (case first_success (attempt_result w bytes t) xs of
        Some p \<Rightarrow> []
      | None \<Rightarrow> calls_made w bytes t ys)"
  by (induction xs) (auto split: option.splits)

lemma try_candidates_calls_made:
  "fst (try_candidates w bytes t i ms) =
     calls_made w bytes t (map (\<lambda>(i, m). OpenRouter_model i m) (enumerate i ms))"
proof (induction ms arbitrary: i)
  case Nil
  then show ?case by simp
next
  case (Cons m ms)
  show ?case
  proof (cases "try_model w bytes t i m")
    case (Pair cs r)
    then show ?thesis
      using Cons.IH [of "Suc i"]
      by (cases r)
         (auto simp: attempt_by_handler simp del: attempt_result.simps attempt_calls.simps
            split: prod.splits)
  qed
qed

lemma detect_calls_made:
  "fst (detect e w bytes t) = calls_made w bytes t (attempts e)"
proof -
  let ?or = "map (\<lambda>(i, m). OpenRouter_model i m) (enumerate 0 (candidates e))"
  have one: "snd (try_candidates w bytes t 0 (candidates e))
             = map_option snd (first_success (attempt_result w bytes t) ?or)"
    by (rule try_candidates_first_success)
  have two: "fst (try_candidates w bytes t 0 (candidates e)) = calls_made w bytes t ?or"
    by (rule try_candidates_calls_made)
  show ?thesis
  proof (cases "truthy (OPENROUTER_API_KEY e)")
    case True
    show ?thesis
    proof (cases "try_candidates w bytes t 0 (candidates e)")
      case (Pair c1 r1)
      then show ?thesis
        using one two True
        by (cases r1; cases "try_xai w bytes t"; cases "snd (try_xai w bytes t)")
           (auto simp: detect_def attempts_def calls_made_append attempt_by_handler
              simp del: attempt_result.simps attempt_calls.simps split: option.splits)
    qed
  next
    case False
    then show ?thesis
      by (cases "try_xai w bytes t"; cases "snd (try_xai w bytes t)")
         (auto simp: detect_def attempts_def attempt_by_handler
            simp del: attempt_result.simps attempt_calls.simps split: option.splits)
  qed
qed

lemma POST_valid:
  "validate req = Inr (f, bytes) \<Longrightarrow>
   POST e w req = detect e w bytes (if file_type f \<noteq> [] then file_type f else js ''image/jpeg'')"
  by (simp add: POST_def)

lemma candidates_override:
  "OPENROUTER_MODEL e = Some s \<Longrightarrow> s \<noteq> [] \<Longrightarrow>
   candidates e = filter (\<lambda>m. m \<noteq> []) (map trim (split s 0x2C))"
  by (simp add: candidates_def)

lemma candidates_default:
  "\<not> truthy (OPENROUTER_MODEL e) \<Longrightarrow>
   candidates e = [js ''openai/gpt-4o'', js ''google/gemini-1.5-pro'', js ''anthropic/claude-3.5-sonnet'']"
  by (auto simp: candidates_def truthy_def default_models_def split: option.splits)

text \<open>
  The pieces of \<open>split\<close> hold no separator, and a trimmed string that is not empty
  neither starts nor ends with white space.
\<close>

lemma split_not_Nil: "split s c \<noteq> []"
  by (induction s) (auto split: list.splits)

lemma split_no_separator: "p \<in> set (split s c) \<Longrightarrow> c \<notin> set p"
proof (induction s arbitrary: p)
  case Nil
  then show ?case by simp
next
  case (Cons x s)
  show ?case
  proof (cases "x = c")
    case True
    then show ?thesis using Cons by auto
  next
    case False
    obtain q qs where q: "split s c = q # qs"
      using split_not_Nil [of s c] by (cases "split s c") auto
    then have "p = x # q \<or> p \<in> set qs" using Cons.prems False by simp
    then show ?thesis
    proof
      assume "p = x # q"
      moreover have "c \<notin> set q" using Cons.IH [of q] q by simp
      ultimately show ?thesis using False by auto
    next
      assume "p \<in> set qs"
      then show ?thesis using Cons.IH [of p] q by simp
    qed
  qed
qed

lemma trim_ends:
  assumes "trim s \<noteq> []"
  shows "\<not> is_space (hd (trim s)) \<and> \<not> is_space (last (trim s))"
proof -
  let ?d = "dropWhile is_space s"
  let ?r = "dropWhile is_space (rev ?d)"
  have r: "?r \<noteq> []" using assms by (simp add: trim_def)
  then have "\<not> is_space (hd ?r)" by (rule hd_dropWhile)
  then have last: "\<not> is_space (last (trim s))"
    using r by (simp add: trim_def last_rev)
  have d: "?d \<noteq> []"
  proof
    assume a: "?d = []"
    have "?r = []" unfolding a by simp
    then show False using r by blast
  qed
  then have hd: "\<not> is_space (hd ?d)" by (rule hd_dropWhile)
  obtain y ys where y: "?d = y # ys" using d by (cases ?d) auto
  have "\<not> is_space y" using hd y by simp
  have "rev ?d = rev ys @ [y]" using y by simp
  then have "?r = dropWhile is_space (rev ys @ [y])" by simp
  also have "\<dots> = (if \<forall>x\<in>set (rev ys). is_space x then [y]
                   else dropWhile is_space (rev ys) @ [y])"
    using \<open>\<not> is_space y\<close> by (simp add: dropWhile_append)
  finally have "\<exists>zs. ?r = zs @ [y]" by auto
  then obtain zs where zs: "?r = zs @ [y]" by blast
  have "trim s = y # rev zs" unfolding trim_def zs by simp
  then have "hd (trim s) = y" by simp
  then show ?thesis using last \<open>\<not> is_space y\<close> by simp
qed

lemma join_Cons: "join ((x # p) # ps) c = x # join (p # ps) c"
  by (cases ps) simp_all

lemma join_split: "join (split s c) c = s"
proof (induction s)
  case Nil
  then show ?case by simp
next
  case (Cons x s)
  obtain q qs where q: "split s c = q # qs"
    using split_not_Nil [of s c] by (cases "split s c") auto
  show ?case
  proof (cases "x = c")
    case True
    then show ?thesis using Cons.IH q by simp
  next
    case False
    then show ?thesis using Cons.IH q by (simp add: join_Cons)
  qed
qed

lemma example_attempts:
  "attempts example_env =
     [OpenRouter_model 0 (js ''model-a''), OpenRouter_model 1 (js ''model-b''), Xai_grok4]"
  using example_env_keys by (simp add: attempts_def example_candidates)

lemma example_mimeType:
  "js ''image/png'' =
     (if file_type example_file \<noteq> [] then file_type example_file else js ''image/jpeg'')"
  by (simp add: example_file_def js_def)

lemma candidates_trimmed:
  "\<forall>m\<in>set (candidates e). m \<noteq> [] \<and> \<not> is_space (hd m) \<and> \<not> is_space (last m)"
proof (cases "truthy (OPENROUTER_MODEL e)")
  case True
  then obtain s where s: "OPENROUTER_MODEL e = Some s" "s \<noteq> []"
    by (auto simp: truthy_def split: option.splits)
  then have "candidates e = filter (\<lambda>m. m \<noteq> []) (map trim (split s 0x2C))"
    by (simp add: candidates_def)
  then show ?thesis using trim_ends by auto
next
  case False
  then have "candidates e = default_models"
    by (auto simp: candidates_def truthy_def split: option.splits)
  then show ?thesis
    by (simp add: default_models_def js_def is_space_def)
qed

text \<open>
  Claim C5.  For a request that passes the checks, the attempts are the OpenRouter
  candidates in list order (the entries of \<open>OPENROUTER_MODEL\<close> between commas,
  trimmed, the empty ones dropped; the three static models when the variable is unset
  or empty), then xAI's grok-4.  An attempt is what its provider answers: an
  OpenRouter model succeeds with the answer of \<open>generateObject\<close> or, when that throws,
  with the object extracted from the answer of \<open>generateText\<close>; xAI succeeds with the
  answer of \<open>generateObject\<close>.  The endpoint answers with the response of the first
  attempt that succeeds, whose provider field names that attempt, every attempt before
  it having failed; it makes the provider calls of the attempts up to that one, in
  order, and no others.
\<close>

theorem providers_are_tried_in_priority_order:
  assumes "validate req = Inr (f, bytes)"
    and "t = (if file_type f \<noteq> [] then file_type f else js ''image/jpeg'')"
  shows "snd (POST e w req) =
           Json (case first_success (attempt_result w bytes t) (attempts e) of
                   Some (a, r) \<Rightarrow> r
                 | None \<Rightarrow> fallback bytes)
    \<and> fst (POST e w req) = calls_made w bytes t (attempts e)
    \<and> (\<forall>a r. first_success (attempt_result w bytes t) (attempts e) = Some (a, r) \<longrightarrow>
          provider r = attempt_name a
          \<and> (\<exists>before after. attempts e = before @ a # after
                \<and> (\<forall>x\<in>set before. attempt_result w bytes t x = None)
                \<and> attempt_result w bytes t a = Some r))
    \<and> (\<forall>i m. attempt_result w bytes t (OpenRouter_model i m) =
          (case openrouter_generateObject w i m bytes t of
             Some obj \<Rightarrow> Some (respond_object obj (js ''openrouter:'' @ m))
           | None \<Rightarrow>
               (case openrouter_generateText w i m bytes t of
                  None \<Rightarrow> None
                | Some text \<Rightarrow>
                    map_option (\<lambda>data. respond_text data (js ''openrouter:'' @ m))
                      (schema_safeParse (Number_of_string w)
                         (extractJsonObject (JSON_parse w) text)))))
    \<and> attempt_result w bytes t Xai_grok4 =
        map_option (\<lambda>obj. respond_object obj (js ''grok-4'')) (xai_generateObject w bytes t)
    \<and> (\<forall>i m. attempt_calls w bytes t (OpenRouter_model i m) =
          (case openrouter_generateObject w i m bytes t of
             Some obj \<Rightarrow> [OpenRouter_generateObject m]
           | None \<Rightarrow> [OpenRouter_generateObject m, OpenRouter_generateText m]))
    \<and> attempt_calls w bytes t Xai_grok4 = [Xai_generateObject]
    \<and> (\<forall>i m. try_model w bytes t i m =
          (attempt_calls w bytes t (OpenRouter_model i m),
           attempt_result w bytes t (OpenRouter_model i m)))
    \<and> try_xai w bytes t = (attempt_calls w bytes t Xai_grok4, attempt_result w bytes t Xai_grok4)
    \<and> attempts e =
        (if truthy (OPENROUTER_API_KEY e)
         then map (\<lambda>(i, m). OpenRouter_model i m) (enumerate 0 (candidates e)) else []) @
        (if truthy (XAI_API_KEY e) then [Xai_grok4] else [])
    \<and> (\<forall>s. OPENROUTER_MODEL e = Some s \<and> s \<noteq> [] \<longrightarrow>
          candidates e = filter (\<lambda>m. m \<noteq> []) (map trim (split s 0x2C))
          \<and> join (split s 0x2C) 0x2C = s
          \<and> (\<forall>p\<in>set (split s 0x2C). 0x2C \<notin> set p))
    \<and> (\<not> truthy (OPENROUTER_MODEL e) \<longrightarrow>
          candidates e =
            [js ''openai/gpt-4o'', js ''google/gemini-1.5-pro'', js ''anthropic/claude-3.5-sonnet''])
    \<and> (\<forall>m\<in>set (candidates e). m \<noteq> [] \<and> \<not> is_space (hd m) \<and> \<not> is_space (last m))"
proof -
  have answer: "snd (POST e w req) =
           Json (case first_success (attempt_result w bytes t) (attempts e) of
                   Some (a, r) \<Rightarrow> r
                 | None \<Rightarrow> fallback bytes)"
    using POST_valid [OF assms(1)] assms(2) detect_first_success by simp
  have calls: "fst (POST e w req) = calls_made w bytes t (attempts e)"
    using POST_valid [OF assms(1)] assms(2) detect_calls_made by simp
  have first: "\<forall>a r. first_success (attempt_result w bytes t) (attempts e) = Some (a, r) \<longrightarrow>
          provider r = attempt_name a
          \<and> (\<exists>before after. attempts e = before @ a # after
                \<and> (\<forall>x\<in>set before. attempt_result w bytes t x = None)
                \<and> attempt_result w bytes t a = Some r)"
    using first_success_Some [of "attempt_result w bytes t" "attempts e"] attempt_result_provider
    by metis
  have what: "\<forall>i m. attempt_result w bytes t (OpenRouter_model i m) =
          (case openrouter_generateObject w i m bytes t of
             Some obj \<Rightarrow> Some (respond_object obj (js ''openrouter:'' @ m))
           | None \<Rightarrow>
               (case openrouter_generateText w i m bytes t of
                  None \<Rightarrow> None
                | Some text \<Rightarrow>
                    map_option (\<lambda>data. respond_text data (js ''openrouter:'' @ m))
                      (schema_safeParse (Number_of_string w)
                         (extractJsonObject (JSON_parse w) text))))"
    "attempt_result w bytes t Xai_grok4 =
        map_option (\<lambda>obj. respond_object obj (js ''grok-4'')) (xai_generateObject w bytes t)"
    "\<forall>i m. attempt_calls w bytes t (OpenRouter_model i m) =
          (case openrouter_generateObject w i m bytes t of
             Some obj \<Rightarrow> [OpenRouter_generateObject m]
           | None \<Rightarrow> [OpenRouter_generateObject m, OpenRouter_generateText m])"
    "attempt_calls w bytes t Xai_grok4 = [Xai_generateObject]"
    by simp_all
  have handler: "\<forall>i m. try_model w bytes t i m =
          (attempt_calls w bytes t (OpenRouter_model i m),
           attempt_result w bytes t (OpenRouter_model i m))"
    "try_xai w bytes t = (attempt_calls w bytes t Xai_grok4, attempt_result w bytes t Xai_grok4)"
    using try_model_attempt try_xai_attempt by blast+
  have order: "attempts e =
        (if truthy (OPENROUTER_API_KEY e)
         then map (\<lambda>(i, m). OpenRouter_model i m) (enumerate 0 (candidates e)) else []) @
        (if truthy (XAI_API_KEY e) then [Xai_grok4] else [])"
    by (simp add: attempts_def)
  have override: "\<forall>s. OPENROUTER_MODEL e = Some s \<and> s \<noteq> [] \<longrightarrow>
          candidates e = filter (\<lambda>m. m \<noteq> []) (map trim (split s 0x2C))
          \<and> join (split s 0x2C) 0x2C = s
          \<and> (\<forall>p\<in>set (split s 0x2C). 0x2C \<notin> set p)"
    using candidates_override join_split split_no_separator by blast
  have static: "\<not> truthy (OPENROUTER_MODEL e) \<longrightarrow>
          candidates e =
            [js ''openai/gpt-4o'', js ''google/gemini-1.5-pro'', js ''anthropic/claude-3.5-sonnet'']"
    using candidates_default [of e] by blast
  show ?thesis
    using answer calls first what handler order override static candidates_trimmed [of e]
    by blast
qed

theorem providers_are_tried_in_priority_order_witness:
  "validate example_request = Inr (example_file, [1, 2, 3])
   \<and> attempts example_env =
        [OpenRouter_model 0 (js ''model-a''), OpenRouter_model 1 (js ''model-b''), Xai_grok4]
   \<and> POST example_env example_world example_request
       = ([OpenRouter_generateObject (js ''model-a''), OpenRouter_generateText (js ''model-a''),
           OpenRouter_generateObject (js ''model-b''), OpenRouter_generateText (js ''model-b'')],
          Json \<lparr>score = Finite 80, reason = js ''synthetic texture'',
                label = js ''AI-Generated'', provider = js ''openrouter:model-b''\<rparr>)
   \<and> first_success (attempt_result example_world [1, 2, 3] (js ''image/png''))
         (attempts example_env)
       = Some (OpenRouter_model 1 (js ''model-b''),
               \<lparr>score = Finite 80, reason = js ''synthetic texture'',
                label = js ''AI-Generated'', provider = js ''openrouter:model-b''\<rparr>)
   \<and> POST example_env strict_world example_request
       = ([OpenRouter_generateObject (js ''model-a'')],
          Json \<lparr>score = Finite 12, reason = js ''sensor noise'',
                label = js ''Human-Captured'', provider = js ''openrouter:model-a''\<rparr>)
   \<and> first_success (attempt_result strict_world [1, 2, 3] (js ''image/png''))
         (attempts example_env)
       = Some (OpenRouter_model 0 (js ''model-a''),
               \<lparr>score = Finite 12, reason = js ''sensor noise'',
                label = js ''Human-Captured'', provider = js ''openrouter:model-a''\<rparr>)
   \<and> POST example_env prose_world example_request
       = ([OpenRouter_generateObject (js ''model-a''), OpenRouter_generateText (js ''model-a''),
           OpenRouter_generateObject (js ''model-b''), OpenRouter_generateText (js ''model-b''),
           Xai_generateObject],
          Json \<lparr>score = Finite 73, reason = js ''sensor noise absent'',
                label = js ''AI-Generated'', provider = js ''grok-4''\<rparr>)
   \<and> first_success (attempt_result prose_world [1, 2, 3] (js ''image/png''))
         (attempts example_env)
       = Some (Xai_grok4,
               \<lparr>score = Finite 73, reason = js ''sensor noise absent'',
                label = js ''AI-Generated'', provider = js ''grok-4''\<rparr>)
   \<and> xai_generateObject prose_world [1, 2, 3] (js ''image/png'')
       = Some \<lparr>score = Finite (145 / 2), reason = js ''sensor noise absent''\<rparr>"
proof -
  note run = providers_are_tried_in_priority_order [OF example_validate example_mimeType]
  have x: "xai_generateObject prose_world [1, 2, 3] (js ''image/png'')
       = Some \<lparr>score = Finite (145 / 2), reason = js ''sensor noise absent''\<rparr>"
    by (simp add: prose_world_def example_world_def)
  have a: "first_success (attempt_result example_world [1, 2, 3] (js ''image/png''))
         (attempts example_env)
       = Some (OpenRouter_model 1 (js ''model-b''),
               \<lparr>score = Finite 80, reason = js ''synthetic texture'',
                label = js ''AI-Generated'', provider = js ''openrouter:model-b''\<rparr>)"
    by (simp add: example_attempts attempt_by_handler example_try_model_a example_try_model_b
        del: attempt_result.simps)
  have b: "first_success (attempt_result strict_world [1, 2, 3] (js ''image/png''))
         (attempts example_env)
       = Some (OpenRouter_model 0 (js ''model-a''),
               \<lparr>score = Finite 12, reason = js ''sensor noise'',
                label = js ''Human-Captured'', provider = js ''openrouter:model-a''\<rparr>)"
    by (simp add: example_attempts attempt_by_handler strict_try_model_a
        del: attempt_result.simps)
  have c: "first_success (attempt_result prose_world [1, 2, 3] (js ''image/png''))
         (attempts example_env)
       = Some (Xai_grok4,
               \<lparr>score = Finite 73, reason = js ''sensor noise absent'',
                label = js ''AI-Generated'', provider = js ''grok-4''\<rparr>)"
    by (simp add: example_attempts attempt_by_handler prose_try_model prose_try_xai
        del: attempt_result.simps)
  have ca: "calls_made example_world [1, 2, 3] (js ''image/png'') (attempts example_env)
       = [OpenRouter_generateObject (js ''model-a''), OpenRouter_generateText (js ''model-a''),
          OpenRouter_generateObject (js ''model-b''), OpenRouter_generateText (js ''model-b'')]"
    by (simp add: example_attempts attempt_by_handler example_try_model_a example_try_model_b
        del: attempt_result.simps attempt_calls.simps)
  have cb: "calls_made strict_world [1, 2, 3] (js ''image/png'') (attempts example_env)
       = [OpenRouter_generateObject (js ''model-a'')]"
    by (simp add: example_attempts attempt_by_handler strict_try_model_a
        del: attempt_result.simps attempt_calls.simps)
  have cc: "calls_made prose_world [1, 2, 3] (js ''image/png'') (attempts example_env)
       = [OpenRouter_generateObject (js ''model-a''), OpenRouter_generateText (js ''model-a''),
          OpenRouter_generateObject (js ''model-b''), OpenRouter_generateText (js ''model-b''),
          Xai_generateObject]"
    by (simp add: example_attempts attempt_by_handler prose_try_model prose_try_xai
        del: attempt_result.simps attempt_calls.simps)
  have pa: "POST example_env example_world example_request
       = ([OpenRouter_generateObject (js ''model-a''), OpenRouter_generateText (js ''model-a''),
           OpenRouter_generateObject (js ''model-b''), OpenRouter_generateText (js ''model-b'')],
          Json \<lparr>score = Finite 80, reason = js ''synthetic texture'',
                label = js ''AI-Generated'', provider = js ''openrouter:model-b''\<rparr>)"
    using run [of example_env example_world] unfolding a ca
    by (simp add: prod_eq_iff del: attempt_result.simps attempt_calls.simps)
  have pb: "POST example_env strict_world example_request
       = ([OpenRouter_generateObject (js ''model-a'')],
          Json \<lparr>score = Finite 12, reason = js ''sensor noise'',
                label = js ''Human-Captured'', provider = js ''openrouter:model-a''\<rparr>)"
    using run [of example_env strict_world] unfolding b cb
    by (simp add: prod_eq_iff del: attempt_result.simps attempt_calls.simps)
  have pc: "POST example_env prose_world example_request
       = ([OpenRouter_generateObject (js ''model-a''), OpenRouter_generateText (js ''model-a''),
           OpenRouter_generateObject (js ''model-b''), OpenRouter_generateText (js ''model-b''),
           Xai_generateObject],
          Json \<lparr>score = Finite 73, reason = js ''sensor noise absent'',
                label = js ''AI-Generated'', provider = js ''grok-4''\<rparr>)"
    using run [of example_env prose_world] unfolding c cc
    by (simp add: prod_eq_iff del: attempt_result.simps attempt_calls.simps)
  show ?thesis
    using example_validate example_attempts pa pb pc a b c x
    by blast
qed

text \<open>
  Claim C2.  For a request that passes the checks, the response carries the provider
  \<open>fallback\<close> exactly when every configured attempt failed, which includes the case
  that neither key is set and no call is made; it is then the fallback heuristic's
  response.  An OpenRouter attempt has failed when \<open>generateObject\<close> threw and
  \<open>generateText\<close> threw or gave a text without an object that passes the schema; the
  xAI attempt has failed when \<open>generateObject\<close> threw.  When some configured attempt
  succeeds, the response is that of a configured attempt that succeeded and names it.
\<close>

theorem fallback_only_when_all_providers_fail:
  assumes "validate req = Inr (f, bytes)"
    and "t = (if file_type f \<noteq> [] then file_type f else js ''image/jpeg'')"
    and "POST e w req = (cs, Json r)"
  shows "(provider r = js ''fallback'' \<longleftrightarrow>
            (\<forall>a\<in>set (attempts e). attempt_result w bytes t a = None))
    \<and> (provider r = js ''fallback'' \<longrightarrow> r = fallback bytes)
    \<and> (\<not> truthy (OPENROUTER_API_KEY e) \<and> \<not> truthy (XAI_API_KEY e) \<longrightarrow>
          provider r = js ''fallback'' \<and> cs = [])
    \<and> ((\<exists>a\<in>set (attempts e). attempt_result w bytes t a \<noteq> None) \<longrightarrow>
          (\<exists>a\<in>set (attempts e). attempt_result w bytes t a = Some r \<and> provider r = attempt_name a))
    \<and> (\<forall>i m. attempt_result w bytes t (OpenRouter_model i m) = None \<longleftrightarrow>
          openrouter_generateObject w i m bytes t = None
          \<and> (case openrouter_generateText w i m bytes t of
                None \<Rightarrow> True
              | Some text \<Rightarrow>
                  schema_safeParse (Number_of_string w)
                    (extractJsonObject (JSON_parse w) text) = None))
    \<and> (attempt_result w bytes t Xai_grok4 = None \<longleftrightarrow> xai_generateObject w bytes t = None)
    \<and> (\<forall>i m. snd (try_model w bytes t i m) = attempt_result w bytes t (OpenRouter_model i m))
    \<and> snd (try_xai w bytes t) = attempt_result w bytes t Xai_grok4
    \<and> (truthy (OPENROUTER_API_KEY e) \<longrightarrow>
          (\<forall>k<length (candidates e).
              OpenRouter_model k (candidates e ! k) \<in> set (attempts e)))
    \<and> (truthy (XAI_API_KEY e) \<longrightarrow> Xai_grok4 \<in> set (attempts e))"
proof -
  let ?first = "first_success (attempt_result w bytes t) (attempts e)"
  have "detect e w bytes t = (cs, Json r)"
    using POST_valid [OF assms(1), of e w] assms(3) unfolding assms(2) by simp
  then have d: "snd (detect e w bytes t) = Json r" "fst (detect e w bytes t) = cs"
    by simp_all
  have r: "Json r = Json (case ?first of Some (a, r) \<Rightarrow> r | None \<Rightarrow> fallback bytes)"
    using d(1) detect_first_success [of e w bytes t] by simp
  have cs: "cs = calls_made w bytes t (attempts e)"
    using d(2) detect_calls_made [of e w bytes t] by simp
  have none: "\<not> truthy (OPENROUTER_API_KEY e) \<and> \<not> truthy (XAI_API_KEY e) \<longrightarrow> attempts e = []"
    by (simp add: attempts_def)
  have failed: "\<forall>i m. attempt_result w bytes t (OpenRouter_model i m) = None \<longleftrightarrow>
          openrouter_generateObject w i m bytes t = None
          \<and> (case openrouter_generateText w i m bytes t of
                None \<Rightarrow> True
              | Some text \<Rightarrow>
                  schema_safeParse (Number_of_string w)
                    (extractJsonObject (JSON_parse w) text) = None)"
    "attempt_result w bytes t Xai_grok4 = None \<longleftrightarrow> xai_generateObject w bytes t = None"
    by (simp_all split: option.splits)
  have handler: "\<forall>i m. snd (try_model w bytes t i m) = attempt_result w bytes t (OpenRouter_model i m)"
    "snd (try_xai w bytes t) = attempt_result w bytes t Xai_grok4"
    by (simp_all add: try_model_attempt try_xai_attempt del: attempt_result.simps)
  have configured: "truthy (OPENROUTER_API_KEY e) \<longrightarrow>
          (\<forall>k<length (candidates e).
              OpenRouter_model k (candidates e ! k) \<in> set (attempts e))"
    "truthy (XAI_API_KEY e) \<longrightarrow> Xai_grok4 \<in> set (attempts e)"
  proof -
    show "truthy (OPENROUTER_API_KEY e) \<longrightarrow>
          (\<forall>k<length (candidates e).
              OpenRouter_model k (candidates e ! k) \<in> set (attempts e))"
    proof (intro impI allI)
      fix k
      assume key: "truthy (OPENROUTER_API_KEY e)" and k: "k < length (candidates e)"
      have "(k, candidates e ! k) \<in> set (enumerate 0 (candidates e))"
        using k by (simp add: in_set_enumerate_eq)
      then have "OpenRouter_model k (candidates e ! k)
                 \<in> set (map (\<lambda>(i, m). OpenRouter_model i m) (enumerate 0 (candidates e)))"
        by force
      then show "OpenRouter_model k (candidates e ! k) \<in> set (attempts e)"
        using key by (simp add: attempts_def)
    qed
    show "truthy (XAI_API_KEY e) \<longrightarrow> Xai_grok4 \<in> set (attempts e)"
      by (simp add: attempts_def)
  qed
  have main: "(provider r = js ''fallback'' \<longleftrightarrow>
            (\<forall>a\<in>set (attempts e). attempt_result w bytes t a = None))
    \<and> (provider r = js ''fallback'' \<longrightarrow> r = fallback bytes)
    \<and> (\<not> truthy (OPENROUTER_API_KEY e) \<and> \<not> truthy (XAI_API_KEY e) \<longrightarrow>
          provider r = js ''fallback'' \<and> cs = [])
    \<and> ((\<exists>a\<in>set (attempts e). attempt_result w bytes t a \<noteq> None) \<longrightarrow>
          (\<exists>a\<in>set (attempts e). attempt_result w bytes t a = Some r \<and> provider r = attempt_name a))"
  proof (cases ?first)
    case None
    then have all: "\<forall>a\<in>set (attempts e). attempt_result w bytes t a = None"
      by (simp add: first_success_None)
    have "r = fallback bytes" using r None by simp
    then show ?thesis
      using all none cs provider_fallback by auto
  next
    case (Some p)
    obtain a r' where p: "p = (a, r')" by (cases p)
    have eq: "r = r'" using r Some p by simp
    obtain before after where split:
      "attempts e = before @ a # after" "attempt_result w bytes t a = Some r"
      using first_success_Some [of "attempt_result w bytes t" "attempts e" a r'] Some p eq
      by blast
    have mem: "a \<in> set (attempts e)" using split(1) by simp
    have name: "provider r = attempt_name a"
      using attempt_result_provider split(2) by blast
    then have "provider r \<noteq> js ''fallback''"
      using attempt_name_not_fallback by simp
    then show ?thesis
      using mem split(2) name none by auto
  qed
  show ?thesis
    using main failed handler configured by blast
qed

theorem fallback_only_when_all_providers_fail_witness:
  "validate example_request = Inr (example_file, [1, 2, 3])
   \<and> attempts example_env =
        [OpenRouter_model 0 (js ''model-a''), OpenRouter_model 1 (js ''model-b''), Xai_grok4]
   \<and> POST example_env silent_world example_request
       = ([OpenRouter_generateObject (js ''model-a''), OpenRouter_generateText (js ''model-a''),
           OpenRouter_generateObject (js ''model-b''), OpenRouter_generateText (js ''model-b''),
           Xai_generateObject],
          Json (fallback [1, 2, 3]))
   \<and> provider (fallback [1, 2, 3]) = js ''fallback''
   \<and> attempt_result silent_world [1, 2, 3] (js ''image/png'')
         (OpenRouter_model 0 (js ''model-a'')) = None
   \<and> attempt_result silent_world [1, 2, 3] (js ''image/png'')
         (OpenRouter_model 1 (js ''model-b'')) = None
   \<and> attempt_result silent_world [1, 2, 3] (js ''image/png'') Xai_grok4 = None
   \<and> POST example_env prose_world example_request
       = ([OpenRouter_generateObject (js ''model-a''), OpenRouter_generateText (js ''model-a''),
           OpenRouter_generateObject (js ''model-b''), OpenRouter_generateText (js ''model-b''),
           Xai_generateObject],
          Json \<lparr>score = Finite 73, reason = js ''sensor noise absent'',
                label = js ''AI-Generated'', provider = js ''grok-4''\<rparr>)
   \<and> attempt_result prose_world [1, 2, 3] (js ''image/png'') Xai_grok4 \<noteq> None
   \<and> js ''grok-4'' \<noteq> js ''fallback''
   \<and> POST example_env strict_world example_request
       = ([OpenRouter_generateObject (js ''model-a'')],
          Json \<lparr>score = Finite 12, reason = js ''sensor noise'',
                label = js ''Human-Captured'', provider = js ''openrouter:model-a''\<rparr>)
   \<and> js ''openrouter:model-a'' \<noteq> js ''fallback''
   \<and> POST empty_env example_world example_request = ([], Json (fallback [1, 2, 3]))
   \<and> \<not> truthy (OPENROUTER_API_KEY empty_env) \<and> \<not> truthy (XAI_API_KEY empty_env)"
proof -
  have k: "\<not> truthy (OPENROUTER_API_KEY empty_env)" "\<not> truthy (XAI_API_KEY empty_env)"
    by (simp_all add: empty_env_def truthy_def)
  have g: "js ''grok-4'' \<noteq> js ''fallback''" "js ''openrouter:model-a'' \<noteq> js ''fallback''"
    by (simp_all add: js_def)
  have silent: "\<forall>a\<in>set (attempts example_env).
         attempt_result silent_world [1, 2, 3] (js ''image/png'') a = None"
    using fallback_only_when_all_providers_fail [OF example_validate example_mimeType silent_POST]
      provider_fallback [of "[1, 2, 3]"]
    by blast
  have prose: "attempt_result prose_world [1, 2, 3] (js ''image/png'') Xai_grok4 \<noteq> None"
    by (simp add: attempt_by_handler prose_try_xai del: attempt_result.simps)
  have each: "attempt_result silent_world [1, 2, 3] (js ''image/png'')
         (OpenRouter_model 0 (js ''model-a'')) = None"
    "attempt_result silent_world [1, 2, 3] (js ''image/png'')
         (OpenRouter_model 1 (js ''model-b'')) = None"
    "attempt_result silent_world [1, 2, 3] (js ''image/png'') Xai_grok4 = None"
    using silent unfolding example_attempts by (simp_all del: attempt_result.simps)
  show ?thesis
    using fallback_only_when_all_providers_fail [OF example_validate example_mimeType empty_env_POST]
      example_validate example_attempts silent_POST prose_POST strict_POST empty_env_POST
      provider_fallback [of "[1, 2, 3]"] each prose k g
    by blast
qed

section \<open>extractJsonObject on a fenced block with a trailing comma\<close>

text \<open>
  The text is a \<open>json\<close> fence around an object with a trailing comma.  It has three
  candidates: the contents of the fence, the contents of the fence as any fence sees
  them (with the word \<open>json\<close>), and the braces with the trailing comma removed.
\<close>

lemma fenced_match:
  \<open>match_fenceJson (js ''```json {"score":80,"reason":"synthetic texture",} ```'')
   = Some (js '' {"score":80,"reason":"synthetic texture",} '')\<close>
  by (simp add: js_def fence_def startsWith_def starts_json_def)

lemma fenced_match_any:
  \<open>match_fenceAny (js ''```json {"score":80,"reason":"synthetic texture",} ```'')
   = Some (js ''json {"score":80,"reason":"synthetic texture",} '')\<close>
  by (simp add: js_def fence_def startsWith_def)

lemma fenced_trim:
  \<open>trim (js '' {"score":80,"reason":"synthetic texture",} '')
   = js ''{"score":80,"reason":"synthetic texture",}''\<close>
  \<open>trim (js ''json {"score":80,"reason":"synthetic texture",} '')
   = js ''json {"score":80,"reason":"synthetic texture",}''\<close>
  by (simp_all add: js_def trim_def is_space_def)

lemma fenced_braces:
  \<open>indexOf (js ''```json {"score":80,"reason":"synthetic texture",} ```'') 0x7B = 8\<close>
  \<open>lastIndexOf (js ''```json {"score":80,"reason":"synthetic texture",} ```'') 0x7D = 49\<close>
  \<open>remove_trailing_commas
     (trim (js_slice (js ''```json {"score":80,"reason":"synthetic texture",} ```'') 8 50))
   = js ''{"score":80,"reason":"synthetic texture"}''\<close>
  by (simp_all add: js_def lastIndexOf_def js_slice_def trim_def is_space_def)

lemma fenced_candidates:
  \<open>json_candidates (js ''```json {"score":80,"reason":"synthetic texture",} ```'')
   = [js ''{"score":80,"reason":"synthetic texture",}'',
      js ''json {"score":80,"reason":"synthetic texture",}'',
      js ''{"score":80,"reason":"synthetic texture"}'']\<close>
proof -
  have ne: \<open>js '' {"score":80,"reason":"synthetic texture",} '' \<noteq> []\<close>
    \<open>js ''json {"score":80,"reason":"synthetic texture",} '' \<noteq> []\<close>
    by (simp_all add: js_def)
  show ?thesis
    by (simp add: json_candidates_def fenced_match fenced_match_any fenced_trim fenced_braces ne)
qed

text \<open>
  Claim C6.  The claim is that \<open>extractJsonObject\<close> tries the contents of a
  \<open>json\<close> fence, then of any fence, then the braces with trailing commas removed,
  and returns the first candidate that parses.  On this text the helper returns what
  \<open>JSON.parse\<close> makes of the first candidate alone, \<open>null\<close> when that throws, while
  the extraction of the claim goes on to the second and the third candidate.
\<close>

theorem extractJsonObject_gives_up_after_json_fence:
  \<open>extractJsonObject parse (js ''```json {"score":80,"reason":"synthetic texture",} ```'')
     = parse (js ''{"score":80,"reason":"synthetic texture",}'')
   \<and> extractJsonObject_spec parse (js ''```json {"score":80,"reason":"synthetic texture",} ```'')
     = (case parse (js ''{"score":80,"reason":"synthetic texture",}'') of
          Some v \<Rightarrow> Some v
        | None \<Rightarrow>
            (case parse (js ''json {"score":80,"reason":"synthetic texture",}'') of
               Some v \<Rightarrow> Some v
             | None \<Rightarrow> parse (js ''{"score":80,"reason":"synthetic texture"}'')))\<close>
proof -
  have ne: \<open>js ''```json {"score":80,"reason":"synthetic texture",} ```'' \<noteq> []\<close>
    \<open>js '' {"score":80,"reason":"synthetic texture",} '' \<noteq> []\<close>
    by (simp_all add: js_def)
  have code: \<open>extractJsonObject parse (js ''```json {"score":80,"reason":"synthetic texture",} ```'')
     = parse (js ''{"score":80,"reason":"synthetic texture",}'')\<close>
    by (simp add: extractJsonObject_def fenced_match fenced_trim ne)
  have spec: \<open>extractJsonObject_spec parse (js ''```json {"score":80,"reason":"synthetic texture",} ```'')
     = first_parsed parse
        [js ''{"score":80,"reason":"synthetic texture",}'',
         js ''json {"score":80,"reason":"synthetic texture",}'',
         js ''{"score":80,"reason":"synthetic texture"}'']\<close>
    by (simp add: extractJsonObject_spec_def fenced_candidates ne)
  show ?thesis
    unfolding code spec by (simp split: option.splits)
qed

text \<open>
  With a parser that, like \<open>JSON.parse\<close>, rejects the trailing comma and accepts
  the repaired object, the helper returns \<open>null\<close> and the extraction of the claim
  returns the object.
\<close>

theorem extractJsonObject_gives_up_after_json_fence_example:
  \<open>extractJsonObject example_parse (js ''```json {"score":80,"reason":"synthetic texture",} ```'')
     = None
   \<and> extractJsonObject_spec example_parse
        (js ''```json {"score":80,"reason":"synthetic texture",} ```'')
     = Some (JObject [(js ''score'', JNumber (Finite 80)),
                      (js ''reason'', JString (js ''synthetic texture''))])\<close>
  using extractJsonObject_gives_up_after_json_fence [of example_parse]
  by (simp add: example_parse_def js_def)

section \<open>The checks of the client and of the server\<close>

lemma validate_no_form:
  "formData req = None \<Longrightarrow> validate req = Inl (Text 400 (js ''Expected multipart/form-data''))"
  by (simp add: validate_def)

lemma validate_no_file:
  "formData req = Some fm \<Longrightarrow> form_file fm = None \<Longrightarrow>
   validate req = Inl (Text 400 (js ''Missing image''))"
  by (auto simp: validate_def form_file_def split: option.splits form_entry.splits)

lemma validate_file:
  "formData req = Some fm \<Longrightarrow> form_file fm = Some f \<Longrightarrow>
   validate req =
     (if \<not> startsWith (file_type f) (js ''image/'') then Inl (Text 400 (js ''Invalid file type''))
      else if file_size f > maxBytes then Inl (Text 413 (js ''Image too large (max 6MB)''))
      else (case arrayBuffer f of
              None \<Rightarrow> Inl (Text 500 (js ''Server error''))
            | Some bytes \<Rightarrow> Inr (f, bytes)))"
  by (auto simp: validate_def form_file_def split: option.splits form_entry.splits)

lemma POST_early: "validate req = Inl early \<Longrightarrow> POST e w req = ([], early)"
  by (simp add: POST_def)

lemma detect_is_Json: "\<exists>cs r. detect e w bytes t = (cs, Json r)"
  by (auto simp: detect_def Let_def split: prod.splits option.splits)

lemma POST_accepted: "validate req = Inr (f, bytes) \<Longrightarrow> \<exists>cs r. POST e w req = (cs, Json r)"
  using detect_is_Json by (simp add: POST_def)

text \<open>
  Claim C8.  The handler rejects a bad request without a provider call and without
  the fallback: status 400 when \<open>formData()\<close> throws, status 400 \<open>Missing image\<close>
  when neither field gives a file, status 400 \<open>Invalid file type\<close> when the MIME type
  does not start with \<open>image/\<close>, status 413 when the file is larger than
  \<open>6 * 1024 * 1024\<close> bytes, and status 500 when reading the file throws.  The checks
  are made in this order, each on a request that passed the ones before; a request
  that passes them all is answered with a JSON response.
\<close>

theorem bad_requests_are_rejected_first:
  "(formData req = None \<longrightarrow>
      POST e w req = ([], Text 400 (js ''Expected multipart/form-data'')))
   \<and> (\<forall>fm. formData req = Some fm \<and> image_field fm = None \<and> file_field fm = None \<longrightarrow>
          form_file fm = None)
   \<and> (\<forall>fm. formData req = Some fm \<and> form_file fm = None \<longrightarrow>
          POST e w req = ([], Text 400 (js ''Missing image'')))
   \<and> (\<forall>fm f. formData req = Some fm \<and> form_file fm = Some f
          \<and> \<not> startsWith (file_type f) (js ''image/'') \<longrightarrow>
          POST e w req = ([], Text 400 (js ''Invalid file type'')))
   \<and> (\<forall>fm f. formData req = Some fm \<and> form_file fm = Some f
          \<and> startsWith (file_type f) (js ''image/'') \<and> file_size f > 6 * 1024 * 1024 \<longrightarrow>
          POST e w req = ([], Text 413 (js ''Image too large (max 6MB)'')))
   \<and> (\<forall>fm f. formData req = Some fm \<and> form_file fm = Some f
          \<and> startsWith (file_type f) (js ''image/'') \<and> file_size f \<le> 6 * 1024 * 1024
          \<and> arrayBuffer f = None \<longrightarrow>
          POST e w req = ([], Text 500 (js ''Server error'')))
   \<and> (\<forall>fm f bytes. formData req = Some fm \<and> form_file fm = Some f
          \<and> startsWith (file_type f) (js ''image/'') \<and> file_size f \<le> 6 * 1024 * 1024
          \<and> arrayBuffer f = Some bytes \<longrightarrow>
          (\<exists>cs r. POST e w req = (cs, Json r)))"
proof -
  have a: "formData req = None \<longrightarrow>
      POST e w req = ([], Text 400 (js ''Expected multipart/form-data''))"
    using validate_no_form POST_early by blast
  have b: "\<forall>fm. formData req = Some fm \<and> image_field fm = None \<and> file_field fm = None \<longrightarrow>
          form_file fm = None"
    by (simp add: form_file_def)
  have c: "\<forall>fm. formData req = Some fm \<and> form_file fm = None \<longrightarrow>
          POST e w req = ([], Text 400 (js ''Missing image''))"
    using validate_no_file POST_early by blast
  have d: "\<forall>fm f. formData req = Some fm \<and> form_file fm = Some f
          \<and> \<not> startsWith (file_type f) (js ''image/'') \<longrightarrow>
          POST e w req = ([], Text 400 (js ''Invalid file type''))"
    using validate_file [of req] POST_early [of req _ e w] by simp
  have e: "\<forall>fm f. formData req = Some fm \<and> form_file fm = Some f
          \<and> startsWith (file_type f) (js ''image/'') \<and> file_size f > 6 * 1024 * 1024 \<longrightarrow>
          POST e w req = ([], Text 413 (js ''Image too large (max 6MB)''))"
    using validate_file [of req] POST_early [of req _ e w] by (simp add: maxBytes_def)
  have f: "\<forall>fm f. formData req = Some fm \<and> form_file fm = Some f
          \<and> startsWith (file_type f) (js ''image/'') \<and> file_size f \<le> 6 * 1024 * 1024
          \<and> arrayBuffer f = None \<longrightarrow>
          POST e w req = ([], Text 500 (js ''Server error''))"
    using validate_file [of req] POST_early [of req _ e w] by (simp add: maxBytes_def)
  have g: "\<forall>fm f bytes. formData req = Some fm \<and> form_file fm = Some f
          \<and> startsWith (file_type f) (js ''image/'') \<and> file_size f \<le> 6 * 1024 * 1024
          \<and> arrayBuffer f = Some bytes \<longrightarrow>
          (\<exists>cs r. POST e w req = (cs, Json r))"
    using validate_file [of req] POST_accepted [of req _ _ e w] by (simp add: maxBytes_def)
  show ?thesis using a b c d e f g by blast
qed

theorem bad_requests_are_rejected_first_witness:
  "POST empty_env example_world \<lparr>formData = None\<rparr>
     = ([], Text 400 (js ''Expected multipart/form-data''))
   \<and> POST empty_env example_world
       \<lparr>formData = Some \<lparr>image_field = None, file_field = None\<rparr>\<rparr>
     = ([], Text 400 (js ''Missing image''))
   \<and> POST empty_env example_world
       \<lparr>formData = Some \<lparr>image_field = Some (StringEntry (js ''cat.png'')),
                          file_field = Some (FileEntry example_file)\<rparr>\<rparr>
     = ([], Text 400 (js ''Missing image''))
   \<and> POST empty_env example_world
       \<lparr>formData = Some \<lparr>image_field = None,
          file_field = Some (FileEntry \<lparr>file_type = js ''text/plain'', file_size = 7000000,
                                       arrayBuffer = Some []\<rparr>)\<rparr>\<rparr>
     = ([], Text 400 (js ''Invalid file type''))
   \<and> POST empty_env example_world
       \<lparr>formData = Some \<lparr>image_field =
            Some (FileEntry \<lparr>file_type = js ''image/png'', file_size = 6291457,
                             arrayBuffer = Some []\<rparr>),
          file_field = None\<rparr>\<rparr>
     = ([], Text 413 (js ''Image too large (max 6MB)''))
   \<and> POST empty_env example_world
       \<lparr>formData = Some \<lparr>image_field =
            Some (FileEntry \<lparr>file_type = js ''image/png'', file_size = 6291456,
                             arrayBuffer = None\<rparr>),
          file_field = None\<rparr>\<rparr>
     = ([], Text 500 (js ''Server error''))
   \<and> (\<exists>cs r. POST empty_env example_world example_request = (cs, Json r))"
proof -
  have png: "startsWith (js ''image/png'') (js ''image/'')"
    and plain: "\<not> startsWith (js ''text/plain'') (js ''image/'')"
    by (simp_all add: startsWith_def js_def)
  have r1: "POST empty_env example_world \<lparr>formData = None\<rparr>
     = ([], Text 400 (js ''Expected multipart/form-data''))"
    using bad_requests_are_rejected_first [of "\<lparr>formData = None\<rparr>" empty_env example_world]
    by simp
  have r2: "POST empty_env example_world
       \<lparr>formData = Some \<lparr>image_field = None, file_field = None\<rparr>\<rparr>
     = ([], Text 400 (js ''Missing image''))"
    using bad_requests_are_rejected_first
      [of "\<lparr>formData = Some \<lparr>image_field = None, file_field = None\<rparr>\<rparr>"
          empty_env example_world]
    by simp
  have r3: "POST empty_env example_world
       \<lparr>formData = Some \<lparr>image_field = Some (StringEntry (js ''cat.png'')),
                          file_field = Some (FileEntry example_file)\<rparr>\<rparr>
     = ([], Text 400 (js ''Missing image''))"
    using bad_requests_are_rejected_first
      [of "\<lparr>formData = Some \<lparr>image_field = Some (StringEntry (js ''cat.png'')),
                          file_field = Some (FileEntry example_file)\<rparr>\<rparr>"
          empty_env example_world]
    by (simp add: form_file_def)
  have r4: "POST empty_env example_world
       \<lparr>formData = Some \<lparr>image_field = None,
          file_field = Some (FileEntry \<lparr>file_type = js ''text/plain'', file_size = 7000000,
                                       arrayBuffer = Some []\<rparr>)\<rparr>\<rparr>
     = ([], Text 400 (js ''Invalid file type''))"
    using bad_requests_are_rejected_first
      [of "\<lparr>formData = Some \<lparr>image_field = None,
          file_field = Some (FileEntry \<lparr>file_type = js ''text/plain'', file_size = 7000000,
                                       arrayBuffer = Some []\<rparr>)\<rparr>\<rparr>"
          empty_env example_world] plain
    by (simp add: form_file_def)
  have r5: "POST empty_env example_world
       \<lparr>formData = Some \<lparr>image_field =
            Some (FileEntry \<lparr>file_type = js ''image/png'', file_size = 6291457,
                             arrayBuffer = Some []\<rparr>),
          file_field = None\<rparr>\<rparr>
     = ([], Text 413 (js ''Image too large (max 6MB)''))"
    using bad_requests_are_rejected_first
      [of "\<lparr>formData = Some \<lparr>image_field =
            Some (FileEntry \<lparr>file_type = js ''image/png'', file_size = 6291457,
                             arrayBuffer = Some []\<rparr>),
          file_field = None\<rparr>\<rparr>"
          empty_env example_world] png
    by (simp add: form_file_def)
  have r6: "POST empty_env example_world
       \<lparr>formData = Some \<lparr>image_field =
            Some (FileEntry \<lparr>file_type = js ''image/png'', file_size = 6291456,
                             arrayBuffer = None\<rparr>),
          file_field = None\<rparr>\<rparr>
     = ([], Text 500 (js ''Server error''))"
    using bad_requests_are_rejected_first
      [of "\<lparr>formData = Some \<lparr>image_field =
            Some (FileEntry \<lparr>file_type = js ''image/png'', file_size = 6291456,
                             arrayBuffer = None\<rparr>),
          file_field = None\<rparr>\<rparr>"
          empty_env example_world] png
    by (simp add: form_file_def)
  have r7: "\<exists>cs r. POST empty_env example_world example_request = (cs, Json r)"
    using bad_requests_are_rejected_first [of example_request empty_env example_world] png
    by (simp add: form_file_def example_request_def example_file_def)
  show ?thesis using r1 r2 r3 r4 r5 r6 r7 by blast
qed

section \<open>The file intake of the widget\<close>

text \<open>
  Claim C7.  \<open>onFiles\<close> accepts the first file only if its MIME type starts with
  \<open>image/\<close> and its size is at most \<open>5 * 1024 * 1024\<close> bytes.  On an accepted file
  it stores the file and a preview URL and clears the error and the result; on a
  rejected file it sets an error and leaves the selected file and the preview URL as
  they were.  Without a file it changes nothing.
\<close>

theorem onFiles_accepts_images_up_to_5MB:
  "(startsWith (file_type f) (js ''image/'') \<and> file_size f \<le> 5 * 1024 * 1024 \<longrightarrow>
      onFiles url (Some (f # fs)) st =
        st\<lparr>selected_file := Some f, previewUrl := Some (url f), error := None, result := None\<rparr>)
   \<and> (\<not> (startsWith (file_type f) (js ''image/'') \<and> file_size f \<le> 5 * 1024 * 1024) \<longrightarrow>
        error (onFiles url (Some (f # fs)) st) \<noteq> None
        \<and> selected_file (onFiles url (Some (f # fs)) st) = selected_file st
        \<and> previewUrl (onFiles url (Some (f # fs)) st) = previewUrl st)
   \<and> (selected_file (onFiles url (Some (f # fs)) st) \<noteq> selected_file st \<longrightarrow>
        startsWith (file_type f) (js ''image/'') \<and> file_size f \<le> 5 * 1024 * 1024)
   \<and> onFiles url None st = st \<and> onFiles url (Some []) st = st"
proof (cases "startsWith (file_type f) (js ''image/'')")
  case False
  then show ?thesis
    by (simp add: onFiles_def Let_def)
next
  case True
  show ?thesis
  proof (cases "file_size f > MAX_SIZE_BYTES")
    case large: True
    then have "\<not> file_size f \<le> 5 * 1024 * 1024"
      by (simp add: MAX_SIZE_BYTES_def)
    then show ?thesis
      using True large by (simp add: onFiles_def Let_def)
  next
    case small: False
    then have "file_size f \<le> 5 * 1024 * 1024"
      by (simp add: MAX_SIZE_BYTES_def)
    then show ?thesis
      using True small by (simp add: onFiles_def Let_def)
  qed
qed

theorem onFiles_accepts_images_up_to_5MB_witness:
  "onFiles (\<lambda>f. js ''blob:1'') (Some [example_file])
     \<lparr>selected_file = None, previewUrl = None, loading = False,
      error = Some (js ''Please upload a valid image file.''), result = None\<rparr>
   = \<lparr>selected_file = Some example_file, previewUrl = Some (js ''blob:1''), loading = False,
      error = None, result = None\<rparr>
   \<and> error (onFiles (\<lambda>f. js ''blob:2'')
       (Some [\<lparr>file_type = js ''image/png'', file_size = 5242881, arrayBuffer = None\<rparr>])
       \<lparr>selected_file = Some example_file, previewUrl = Some (js ''blob:1''), loading = False,
        error = None, result = None\<rparr>) \<noteq> None
   \<and> selected_file (onFiles (\<lambda>f. js ''blob:2'')
       (Some [\<lparr>file_type = js ''image/png'', file_size = 5242881, arrayBuffer = None\<rparr>])
       \<lparr>selected_file = Some example_file, previewUrl = Some (js ''blob:1''), loading = False,
        error = None, result = None\<rparr>) = Some example_file
   \<and> previewUrl (onFiles (\<lambda>f. js ''blob:2'')
       (Some [\<lparr>file_type = js ''image/png'', file_size = 5242881, arrayBuffer = None\<rparr>])
       \<lparr>selected_file = Some example_file, previewUrl = Some (js ''blob:1''), loading = False,
        error = None, result = None\<rparr>) = Some (js ''blob:1'')"
proof -
  have png: "startsWith (js ''image/png'') (js ''image/'')"
    by (simp add: startsWith_def js_def)
  show ?thesis
    using onFiles_accepts_images_up_to_5MB
      [of example_file "\<lambda>f. js ''blob:1''" "[]"
          "\<lparr>selected_file = None, previewUrl = None, loading = False,
            error = Some (js ''Please upload a valid image file.''), result = None\<rparr>"]
      onFiles_accepts_images_up_to_5MB
      [of "\<lparr>file_type = js ''image/png'', file_size = 5242881, arrayBuffer = None\<rparr>"
          "\<lambda>f. js ''blob:2''" "[]"
          "\<lparr>selected_file = Some example_file, previewUrl = Some (js ''blob:1''),
            loading = False, error = None, result = None\<rparr>"]
      png
    by (simp add: example_file_def)
qed

section \<open>The client's limit and the server's\<close>

text \<open>
  \<open>setFile\<close> is called in \<open>onFiles\<close> only, so a selected file has always passed
  the checks of \<open>onFiles\<close>.
\<close>

lemma onFiles_keeps_limit:
  assumes "\<forall>g. selected_file st = Some g \<longrightarrow>
             startsWith (file_type g) (js ''image/'') \<and> file_size g \<le> MAX_SIZE_BYTES"
  shows "\<forall>g. selected_file (onFiles url files st) = Some g \<longrightarrow>
             startsWith (file_type g) (js ''image/'') \<and> file_size g \<le> MAX_SIZE_BYTES"
  using assms
  by (auto simp: onFiles_def Let_def split: option.splits list.splits)

lemma analyze_request_no_413:
  assumes "selected_file st = Some g" and "file_size g \<le> MAX_SIZE_BYTES"
    and "analyze_request st = Some req"
  shows "snd (POST e w req) \<noteq> Text 413 body"
proof -
  have req: "req = \<lparr>formData = Some \<lparr>image_field = Some (FileEntry g), file_field = None\<rparr>\<rparr>"
    using assms(1,3) by (simp add: analyze_request_def)
  have small: "\<not> file_size g > maxBytes"
    using assms(2) by (simp add: MAX_SIZE_BYTES_def maxBytes_def)
  show ?thesis
  proof (cases "validate req")
    case (Inl early)
    then have "early \<noteq> Text 413 body"
      using small by (auto simp: req validate_def split: if_splits option.splits)
    then show ?thesis using Inl by (simp add: POST_def)
  next
    case (Inr p)
    obtain f bytes where "p = (f, bytes)" by (cases p)
    then obtain cs r where "POST e w req = (cs, Json r)"
      using POST_accepted Inr by blast
    then show ?thesis by simp
  qed
qed

text \<open>
  Claim C9.  The client's limit of \<open>5 * 1024 * 1024\<close> bytes is below the server's of
  \<open>6 * 1024 * 1024\<close>.  A file that \<open>onFiles\<close> accepts passes the server's size
  guard, the selected file keeps within the client's limit whatever \<open>onFiles\<close> is
  given, and the request that \<open>analyze\<close> sends for a selected file within the limit
  is never answered with status 413.
\<close>

theorem client_limit_is_below_server_limit:
  "MAX_SIZE_BYTES = 5 * 1024 * 1024 \<and> maxBytes = 6 * 1024 * 1024 \<and> MAX_SIZE_BYTES < maxBytes
   \<and> (error (onFiles url (Some (f # fs)) st) = None \<longrightarrow>
        selected_file (onFiles url (Some (f # fs)) st) = Some f
        \<and> file_size f \<le> MAX_SIZE_BYTES \<and> \<not> file_size f > maxBytes
        \<and> (\<forall>req e w body. analyze_request (onFiles url (Some (f # fs)) st) = Some req \<longrightarrow>
              snd (POST e w req) \<noteq> Text 413 body))
   \<and> ((\<forall>g. selected_file st = Some g \<longrightarrow>
          startsWith (file_type g) (js ''image/'') \<and> file_size g \<le> MAX_SIZE_BYTES) \<longrightarrow>
        (\<forall>g. selected_file (onFiles url files st) = Some g \<longrightarrow>
          startsWith (file_type g) (js ''image/'') \<and> file_size g \<le> MAX_SIZE_BYTES))
   \<and> (\<forall>g req e w body. selected_file st = Some g \<and> file_size g \<le> MAX_SIZE_BYTES
          \<and> analyze_request st = Some req \<longrightarrow> snd (POST e w req) \<noteq> Text 413 body)"
proof -
  have limits: "MAX_SIZE_BYTES = 5 * 1024 * 1024" "maxBytes = 6 * 1024 * 1024"
    "MAX_SIZE_BYTES < maxBytes"
    by (simp_all add: MAX_SIZE_BYTES_def maxBytes_def)
  have accepted: "error (onFiles url (Some (f # fs)) st) = None \<longrightarrow>
        selected_file (onFiles url (Some (f # fs)) st) = Some f
        \<and> file_size f \<le> MAX_SIZE_BYTES \<and> \<not> file_size f > maxBytes"
    by (simp add: onFiles_def Let_def MAX_SIZE_BYTES_def maxBytes_def)
  have sent: "error (onFiles url (Some (f # fs)) st) = None \<longrightarrow>
        (\<forall>req e w body. analyze_request (onFiles url (Some (f # fs)) st) = Some req \<longrightarrow>
              snd (POST e w req) \<noteq> Text 413 body)"
    using accepted analyze_request_no_413 by blast
  have general: "\<forall>g req e w body. selected_file st = Some g \<and> file_size g \<le> MAX_SIZE_BYTES
          \<and> analyze_request st = Some req \<longrightarrow> snd (POST e w req) \<noteq> Text 413 body"
    using analyze_request_no_413 by blast
  show ?thesis
    using limits accepted sent general onFiles_keeps_limit [of st url files] by blast
qed

theorem client_limit_is_below_server_limit_witness:
  "error (onFiles (\<lambda>f. js ''blob:1'') (Some [example_file])
       \<lparr>selected_file = None, previewUrl = None, loading = False, error = None,
        result = None\<rparr>) = None
   \<and> analyze_request (onFiles (\<lambda>f. js ''blob:1'') (Some [example_file])
       \<lparr>selected_file = None, previewUrl = None, loading = False, error = None,
        result = None\<rparr>) = Some example_request
   \<and> snd (POST empty_env example_world example_request)
       \<noteq> Text 413 (js ''Image too large (max 6MB)'')
   \<and> snd (POST empty_env example_world example_request) = Json (fallback [1, 2, 3])"
proof -
  have png: "startsWith (js ''image/png'') (js ''image/'')"
    by (simp add: startsWith_def js_def)
  have ok: "onFiles (\<lambda>f. js ''blob:1'') (Some [example_file])
       \<lparr>selected_file = None, previewUrl = None, loading = False, error = None,
        result = None\<rparr>
      = \<lparr>selected_file = Some example_file, previewUrl = Some (js ''blob:1''), loading = False,
         error = None, result = None\<rparr>"
    using png by (simp add: onFiles_def example_file_def MAX_SIZE_BYTES_def)
  have req: "analyze_request
       \<lparr>selected_file = Some example_file, previewUrl = Some (js ''blob:1''), loading = False,
         error = None, result = None\<rparr> = Some example_request"
    by (simp add: analyze_request_def example_request_def)
  show ?thesis
    using client_limit_is_below_server_limit
      [of "\<lambda>f. js ''blob:1''" example_file "[]"
          "\<lparr>selected_file = None, previewUrl = None, loading = False, error = None,
            result = None\<rparr>"]
      ok req empty_env_POST
    by simp
qed

end
